theory Spec2Isabelle
  imports Complex_Main "HOL-Library.Sublist"
begin

section \<open>Python values and string operations used by app.py\<close>

text \<open>
  The program handles company records and e-mail results as Python dictionaries
  (\<open>Dict[str, Any]\<close>).  Field values are modelled by \<open>pyval\<close>: \<open>None\<close>, booleans,
  unbounded integers, floats, strings, lists and string-keyed dictionaries, which is
  the shape of decoded JSON documents.  A float is carried as its value (a rational,
  an infinity or NaN) together with the text \<open>repr\<close> gives for it: the program reads a
  float only through \<open>str()\<close>, \<open>int()\<close> and its truth value.  Strings are byte lists; the
  operations below are Python's on ASCII text, and a character outside ASCII is carried
  as its UTF-8 bytes, which are neither letters with case nor white space here.  For
  \<open>int()\<close>, which also reads the decimal digits and the white space of other scripts,
  the interpreter's table of those characters is a parameter (\<open>unicode_db\<close>).  The
  interpreter's configurable cap on the length of decimal conversions is not modelled.
\<close>

datatype float_value = Finite rat | Infinite | NaN

datatype pyval =
    PNone
  | PBool bool
  | PInt int
  | PFloat float_value string
  | PStr string
  | PList "pyval list"
  | PDict "(string \<times> pyval) list"

type_synonym pydict = "string \<rightharpoonup> pyval"

text \<open>
  Exceptions that can leave a function of the program, with the text \<open>str(exc)\<close> gives
  (as worded by CPython 3.12).
\<close>

datatype py_exception =
    AttributeError string
  | TypeError string
  | ValueError string
  | OverflowError string

subsection \<open>Characters\<close>

definition LF :: char where "LF = CHR 0x0A"
definition CR :: char where "CR = CHR 0x0D"
definition SQ :: char where "SQ = CHR 0x27"
definition DQ :: char where "DQ = CHR 0x22"
definition BSL :: char where "BSL = CHR 0x5C"

definition py_isspace :: "char \<Rightarrow> bool" where
  \<comment> \<open>\<open>str.isspace\<close> on one ASCII character: TAB, LF, VT, FF, CR, FS, GS, RS, US, space\<close>
  "py_isspace c = (let n = (of_char c :: nat) in (9 \<le> n \<and> n \<le> 13) \<or> (28 \<le> n \<and> n \<le> 32))"

definition c_isspace :: "char \<Rightarrow> bool" where
  \<comment> \<open>the white space \<open>int()\<close> skips around an ASCII literal: TAB, LF, VT, FF, CR, space\<close>
  "c_isspace c = (let n = (of_char c :: nat) in (9 \<le> n \<and> n \<le> 13) \<or> n = 32)"

definition is_linebreak :: "char \<Rightarrow> bool" where
  \<comment> \<open>the ASCII line boundaries of \<open>str.splitlines\<close>: LF, VT, FF, CR, FS, GS, RS\<close>
  "is_linebreak c = (let n = (of_char c :: nat) in (10 \<le> n \<and> n \<le> 13) \<or> (28 \<le> n \<and> n \<le> 30))"

definition is_digit :: "char \<Rightarrow> bool" where
  "is_digit c = (let n = (of_char c :: nat) in 48 \<le> n \<and> n \<le> 57)"

definition digit_val :: "char \<Rightarrow> nat" where
  "digit_val c = of_char c - 48"

definition digit_char :: "nat \<Rightarrow> char" where
  "digit_char n = char_of (48 + n)"

definition is_word_char :: "char \<Rightarrow> bool" where
  \<comment> \<open>the regular expression class \<open>\w\<close> on ASCII: letters, digits, underscore\<close>
  "is_word_char c = (let n = (of_char c :: nat) in
     (48 \<le> n \<and> n \<le> 57) \<or> (65 \<le> n \<and> n \<le> 90) \<or> n = 95 \<or> (97 \<le> n \<and> n \<le> 122))"

definition lower_char :: "char \<Rightarrow> char" where
  "lower_char c = (let n = (of_char c :: nat) in if 65 \<le> n \<and> n \<le> 90 then char_of (n + 32) else c)"

subsection \<open>Strings\<close>

definition py_lower :: "string \<Rightarrow> string" where
  \<comment> \<open>\<open>s.lower()\<close>\<close>
  "py_lower s = map lower_char s"

definition py_strip :: "string \<Rightarrow> string" where
  \<comment> \<open>\<open>s.strip()\<close>\<close>
  "py_strip s = rev (dropWhile py_isspace (rev (dropWhile py_isspace s)))"

definition py_strip_chars :: "string \<Rightarrow> string \<Rightarrow> string" where
  \<comment> \<open>\<open>s.strip(chars)\<close>\<close>
  "py_strip_chars chars s =
     rev (dropWhile (\<lambda>c. c \<in> set chars) (rev (dropWhile (\<lambda>c. c \<in> set chars) s)))"

fun startswith :: "string \<Rightarrow> string \<Rightarrow> bool" where
  \<comment> \<open>\<open>s.startswith(p)\<close>\<close>
  "startswith s [] = True"
| "startswith [] (p # ps) = False"
| "startswith (c # cs) (p # ps) = (c = p \<and> startswith cs ps)"

fun py_in :: "string \<Rightarrow> string \<Rightarrow> bool" where
  \<comment> \<open>\<open>needle in hay\<close> on strings\<close>
  "py_in needle [] = (needle = [])"
| "py_in needle (c # cs) = (startswith (c # cs) needle \<or> py_in needle cs)"

fun py_join :: "string \<Rightarrow> string list \<Rightarrow> string" where
  \<comment> \<open>\<open>sep.join(xs)\<close>\<close>
  "py_join sep [] = []"
| "py_join sep [x] = x"
| "py_join sep (x # y # ys) = x @ sep @ py_join sep (y # ys)"

fun split_from :: "string \<Rightarrow> string \<Rightarrow> string list" where
  \<comment> \<open>the scan of \<open>s.split()\<close>; the first argument is the current token, reversed\<close>
  "split_from cur [] = (if cur = [] then [] else [rev cur])"
| "split_from cur (c # cs) =
     (if py_isspace c
      then (if cur = [] then split_from [] cs else rev cur # split_from [] cs)
      else split_from (c # cur) cs)"

definition py_split :: "string \<Rightarrow> string list" where
  \<comment> \<open>\<open>s.split()\<close>: the maximal runs of characters that are not white space\<close>
  "py_split s = split_from [] s"

fun splitlines_from :: "bool \<Rightarrow> string \<Rightarrow> string \<Rightarrow> string list" where
  \<comment> \<open>the scan of \<open>s.splitlines()\<close>; the flag says that the last character was a CR that
      ended a line, so that a LF right after it belongs to the same boundary\<close>
  "splitlines_from after_cr cur [] = (if cur = [] then [] else [rev cur])"
| "splitlines_from after_cr cur (c # cs) =
     (if after_cr \<and> c = LF then splitlines_from False cur cs
      else if is_linebreak c then rev cur # splitlines_from (c = CR) [] cs
      else splitlines_from False (c # cur) cs)"

definition py_splitlines :: "string \<Rightarrow> string list" where
  "py_splitlines s = splitlines_from False [] s"

fun str_of_nat :: "nat \<Rightarrow> string" where
  "str_of_nat n = (if n < 10 then [digit_char n] else str_of_nat (n div 10) @ [digit_char (n mod 10)])"

declare str_of_nat.simps [simp del]

definition str_of_int :: "int \<Rightarrow> string" where
  \<comment> \<open>\<open>str(i)\<close> for an integer\<close>
  "str_of_int i = (if i < 0 then CHR ''-'' # str_of_nat (nat (- i)) else str_of_nat (nat i))"

definition hex_digit :: "nat \<Rightarrow> char" where
  "hex_digit n = (if n < 10 then char_of (48 + n) else char_of (87 + n))"

definition repr_char :: "char \<Rightarrow> char \<Rightarrow> string" where
  \<comment> \<open>one character inside \<open>repr\<close> of a string delimited by \<open>quote\<close>\<close>
  "repr_char quote c = (let n = (of_char c :: nat) in
     if c = quote \<or> c = BSL then [BSL, c]
     else if n = 9 then [BSL, CHR ''t'']
     else if n = 10 then [BSL, CHR ''n'']
     else if n = 13 then [BSL, CHR ''r'']
     else if n < 32 \<or> n = 127 then [BSL, CHR ''x'', hex_digit (n div 16), hex_digit (n mod 16)]
     else [c])"

definition repr_str :: "string \<Rightarrow> string" where
  \<comment> \<open>\<open>repr(s)\<close>: double quotes only when the text has a single quote and no double quote\<close>
  "repr_str s = (let quote = (if SQ \<in> set s \<and> DQ \<notin> set s then DQ else SQ)
                 in quote # concat (map (repr_char quote) s) @ [quote])"

fun py_repr :: "pyval \<Rightarrow> string" where
  "py_repr PNone = ''None''"
| "py_repr (PBool b) = (if b then ''True'' else ''False'')"
| "py_repr (PInt i) = str_of_int i"
| "py_repr (PFloat v text) = text"
| "py_repr (PStr s) = repr_str s"
| "py_repr (PList xs) = ''['' @ py_join '', '' (map py_repr xs) @ '']''"
| "py_repr (PDict kvs) =
     ''{'' @ py_join '', '' (map (\<lambda>(k, v). repr_str k @ '': '' @ py_repr v) kvs) @ ''}''"

definition py_str :: "pyval \<Rightarrow> string" where
  \<comment> \<open>\<open>str(v)\<close>, also what an f-string field \<open>{v}\<close> inserts\<close>
  "py_str v = (case v of PStr s \<Rightarrow> s | _ \<Rightarrow> py_repr v)"

definition type_name :: "pyval \<Rightarrow> string" where
  "type_name v = (case v of PNone \<Rightarrow> ''NoneType'' | PBool _ \<Rightarrow> ''bool'' | PInt _ \<Rightarrow> ''int''
     | PFloat _ _ \<Rightarrow> ''float''
     | PStr _ \<Rightarrow> ''str'' | PList _ \<Rightarrow> ''list'' | PDict _ \<Rightarrow> ''dict'')"

definition quoted :: "string \<Rightarrow> string" where
  "quoted s = SQ # s @ [SQ]"

definition no_attribute :: "pyval \<Rightarrow> string \<Rightarrow> string" where
  \<comment> \<open>the text of the AttributeError for \<open>v.name\<close>\<close>
  "no_attribute v name = quoted (type_name v) @ '' object has no attribute '' @ quoted name"

subsection \<open>Truthiness, \<open>or\<close>, \<open>dict.get\<close>, \<open>int()\<close>\<close>

definition truthy :: "pyval \<Rightarrow> bool" where
  "truthy v = (case v of PNone \<Rightarrow> False | PBool b \<Rightarrow> b | PInt i \<Rightarrow> i \<noteq> 0
     | PFloat x _ \<Rightarrow> (case x of Finite q \<Rightarrow> q \<noteq> 0 | _ \<Rightarrow> True)
     | PStr s \<Rightarrow> s \<noteq> [] | PList xs \<Rightarrow> xs \<noteq> [] | PDict kvs \<Rightarrow> kvs \<noteq> [])"

definition py_or :: "pyval \<Rightarrow> pyval \<Rightarrow> pyval" where
  \<comment> \<open>\<open>a or b\<close>\<close>
  "py_or a b = (if truthy a then a else b)"

definition py_get :: "pydict \<Rightarrow> string \<Rightarrow> pyval" where
  \<comment> \<open>\<open>d.get(k)\<close>\<close>
  "py_get d k = (case d k of None \<Rightarrow> PNone | Some v \<Rightarrow> v)"

definition py_get_default :: "pydict \<Rightarrow> string \<Rightarrow> pyval \<Rightarrow> pyval" where
  \<comment> \<open>\<open>d.get(k, default)\<close>\<close>
  "py_get_default d k dflt = (case d k of None \<Rightarrow> dflt | Some v \<Rightarrow> v)"

definition valid_int_digits :: "string \<Rightarrow> bool" where
  \<comment> \<open>digits, with single underscores allowed between two digits\<close>
  "valid_int_digits ds = (ds \<noteq> [] \<and> list_all (\<lambda>c. is_digit c \<or> c = CHR ''_'') ds
     \<and> is_digit (hd ds) \<and> is_digit (last ds) \<and> \<not> py_in ''__'' ds)"

definition digits_value :: "string \<Rightarrow> nat" where
  "digits_value ds = foldl (\<lambda>a c. 10 * a + digit_val c) 0 (filter is_digit ds)"

definition is_ascii :: "char \<Rightarrow> bool" where
  "is_ascii c = ((of_char c :: nat) < 128)"

type_synonym unicode_db = "string \<Rightarrow> string"

text \<open>
  A text of ASCII characters is parsed as it is.  Before it parses a text that has a
  character outside ASCII, \<open>int()\<close> replaces every decimal digit of another script by
  its ASCII digit and every white space character outside ASCII by a space; at the
  first other character outside ASCII it puts a question mark (which no literal has)
  and drops the rest.  Which characters are digits and white space is the
  interpreter's Unicode table; \<open>unicode_db\<close> is that replacement, on the UTF-8 bytes of
  the text.  It is a parameter of \<open>int()\<close> and of the functions that call it.
\<close>

definition ascii_int_literal :: "string \<Rightarrow> int option" where
  \<comment> \<open>base 10: surrounding white space, an optional sign, then the digits\<close>
  "ascii_int_literal s =
     (let t = rev (dropWhile c_isspace (rev (dropWhile c_isspace s)))
      in case t of
           [] \<Rightarrow> None
         | c # cs \<Rightarrow>
             if c = CHR ''-'' then (if valid_int_digits cs then Some (- int (digits_value cs)) else None)
             else if c = CHR ''+'' then (if valid_int_digits cs then Some (int (digits_value cs)) else None)
             else if valid_int_digits (c # cs) then Some (int (digits_value (c # cs))) else None)"

definition int_of_str :: "unicode_db \<Rightarrow> string \<Rightarrow> int option" where
  \<comment> \<open>\<open>int(s)\<close> for a string\<close>
  "int_of_str u s = ascii_int_literal (if list_all is_ascii s then s else u s)"

definition int_of_float :: "float_value \<Rightarrow> py_exception + int" where
  \<comment> \<open>\<open>int(x)\<close> for a float: truncation towards zero\<close>
  "int_of_float x = (case x of
       Finite q \<Rightarrow> Inr (if q < 0 then - \<lfloor>- q\<rfloor> else \<lfloor>q\<rfloor>)
     | Infinite \<Rightarrow> Inl (OverflowError ''cannot convert float infinity to integer'')
     | NaN \<Rightarrow> Inl (ValueError ''cannot convert float NaN to integer''))"

definition py_int :: "unicode_db \<Rightarrow> pyval \<Rightarrow> py_exception + int" where
  \<comment> \<open>\<open>int(v)\<close>\<close>
  "py_int u v = (case v of
       PInt i \<Rightarrow> Inr i
     | PBool b \<Rightarrow> Inr (if b then 1 else 0)
     | PFloat x _ \<Rightarrow> int_of_float x
     | PStr s \<Rightarrow> (case int_of_str u s of
           Some i \<Rightarrow> Inr i
         | None \<Rightarrow> Inl (ValueError (''invalid literal for int() with base 10: '' @ repr_str s)))
     | PNone \<Rightarrow> Inl (TypeError
           (''int() argument must be a string, a bytes-like object or a real number, not ''
            @ quoted (type_name v)))
     | PList _ \<Rightarrow> Inl (TypeError
           (''int() argument must be a string, a bytes-like object or a real number, not ''
            @ quoted (type_name v)))
     | PDict _ \<Rightarrow> Inl (TypeError
           (''int() argument must be a string, a bytes-like object or a real number, not ''
            @ quoted (type_name v))))"

section \<open>The filter engine\<close>

text \<open>
  \<^verbatim>\<open>
  def filter_companies(items, industry_q, location_q, size_min, size_max):
      out = []
      industry_q = (industry_q or "").lower().strip()
      location_q = (location_q or "").lower().strip()
      for it in items:
          employee_count = int(it.get("employeeCount", 0))
          industry_val = str(it.get("industry", "")).lower()
          location_val = str(it.get("location", "")).lower()
          ok_size = (employee_count >= size_min) and (employee_count <= size_max)
          ok_ind = (industry_q in industry_val) if industry_q else True
          ok_loc = (location_q in location_val) if location_q else True
          if ok_size and ok_ind and ok_loc:
              out.append(it)
      return out
  \<close>
  The queries are strings (\<open>industry_q or ""\<close> is then \<open>industry_q\<close> itself).  The loop
  is a recursion over the items that carries \<open>out\<close>; an exception raised by \<open>int()\<close>
  ends it.  The first argument is the interpreter's table that \<open>int()\<close> reads.
\<close>

definition str_or_empty :: "string \<Rightarrow> string" where
  \<comment> \<open>\<open>(q or "")\<close> for a string \<open>q\<close>\<close>
  "str_or_empty q = (if q \<noteq> [] then q else [])"

fun filter_loop ::
  "unicode_db \<Rightarrow> string \<Rightarrow> string \<Rightarrow> int \<Rightarrow> int \<Rightarrow> pydict list \<Rightarrow> pydict list \<Rightarrow> py_exception + pydict list" where
  "filter_loop u industry_q location_q size_min size_max out [] = Inr out"
| "filter_loop u industry_q location_q size_min size_max out (it # items) =
     (case py_int u (py_get_default it ''employeeCount'' (PInt 0)) of
        Inl e \<Rightarrow> Inl e
      | Inr employee_count \<Rightarrow>
          let industry_val = py_lower (py_str (py_get_default it ''industry'' (PStr [])));
              location_val = py_lower (py_str (py_get_default it ''location'' (PStr [])));
              ok_size = (employee_count \<ge> size_min \<and> employee_count \<le> size_max);
              ok_ind = (if industry_q \<noteq> [] then py_in industry_q industry_val else True);
              ok_loc = (if location_q \<noteq> [] then py_in location_q location_val else True)
          in filter_loop u industry_q location_q size_min size_max
               (if ok_size \<and> ok_ind \<and> ok_loc then out @ [it] else out) items)"

definition filter_companies ::
  "unicode_db \<Rightarrow> pydict list \<Rightarrow> string \<Rightarrow> string \<Rightarrow> int \<Rightarrow> int \<Rightarrow> py_exception + pydict list" where
  "filter_companies u items industry_q location_q size_min size_max =
     filter_loop u (py_strip (py_lower (str_or_empty industry_q)))
                 (py_strip (py_lower (str_or_empty location_q)))
                 size_min size_max [] items"

section \<open>Seed data\<close>

definition TECHNOVA :: pydict where
  "TECHNOVA = [''companyName'' \<mapsto> PStr ''TechNova Solutions'',
     ''website'' \<mapsto> PStr ''https://technova.example'', ''employeeCount'' \<mapsto> PInt 120,
     ''industry'' \<mapsto> PStr ''Software'', ''location'' \<mapsto> PStr ''Bengaluru, IN'']"

definition GREENMAKERS :: pydict where
  "GREENMAKERS = [''companyName'' \<mapsto> PStr ''GreenMakers Manufacturing'',
     ''website'' \<mapsto> PStr ''https://greenmakers.example'', ''employeeCount'' \<mapsto> PInt 80,
     ''industry'' \<mapsto> PStr ''Manufacturing'', ''location'' \<mapsto> PStr ''Pune, IN'']"

definition AEROLOGIX :: pydict where
  "AEROLOGIX = [''companyName'' \<mapsto> PStr ''AeroLogix Systems'',
     ''website'' \<mapsto> PStr ''https://aerologix.example'', ''employeeCount'' \<mapsto> PInt 210,
     ''industry'' \<mapsto> PStr ''Logistics'', ''location'' \<mapsto> PStr ''Hyderabad, IN'']"

definition SEED_COMPANIES :: "pydict list" where
  "SEED_COMPANIES = [TECHNOVA, GREENMAKERS, AEROLOGIX]"

section \<open>The insight generator\<close>

text \<open>
  \<^verbatim>\<open>
  def add_insights(j):
      industry = (j.get("industry") or "").lower()
      employee_count = int(j.get("employeeCount", 0))
      location = j.get("location") or ""
      bullets = []
      if re.search(r"software", industry, re.I):   bullets += [.., ..]
      elif re.search(r"manufact", industry, re.I): bullets += [.., ..]
      elif re.search(r"logistic", industry, re.I): bullets += [.., ..]
      else:                                        bullets += ["Expanding digital footprint"]
      if employee_count > 150:
          bullets.append("Mid-market team with scaling pains")
      if re.search(r"\bIN\b|India", location, re.I):
          bullets.append("Operating in India with regional growth")
      return bullets[:3]
  \<close>
  \<open>.lower()\<close> exists on strings only, \<open>int()\<close> may raise, and \<open>re.search\<close> raises on
  a subject that is not a string.
\<close>

definition lower_method :: "pyval \<Rightarrow> py_exception + string" where
  \<comment> \<open>\<open>v.lower()\<close>\<close>
  "lower_method v = (case v of
       PStr s \<Rightarrow> Inr (py_lower s)
     | _ \<Rightarrow> Inl (AttributeError (no_attribute v ''lower'')))"

definition re_search_icase :: "string \<Rightarrow> string \<Rightarrow> bool" where
  \<comment> \<open>\<open>re.search(lit, s, re.I)\<close> for a pattern of plain letters\<close>
  "re_search_icase lit s = py_in (py_lower lit) (py_lower s)"

fun word_IN_from :: "bool \<Rightarrow> string \<Rightarrow> bool" where
  \<comment> \<open>\<open>\bIN\b\<close> under \<open>re.I\<close>, scanning from a position whose left neighbour is a word
      character or not (the start of the text is not)\<close>
  "word_IN_from prev_word [] = False"
| "word_IN_from prev_word (c # cs) =
     ((\<not> prev_word \<and> py_lower (take 2 (c # cs)) = ''in''
         \<and> (case drop 2 (c # cs) of [] \<Rightarrow> True | d # _ \<Rightarrow> \<not> is_word_char d))
      \<or> word_IN_from (is_word_char c) cs)"

definition re_search_india :: "pyval \<Rightarrow> py_exception + bool" where
  \<comment> \<open>\<open>re.search(r"\bIN\b|India", v, re.I)\<close> as a truth value\<close>
  "re_search_india v = (case v of
       PStr s \<Rightarrow> Inr (word_IN_from False s \<or> re_search_icase ''India'' s)
     | _ \<Rightarrow> Inl (TypeError (''expected string or bytes-like object, got '' @ quoted (type_name v))))"

definition industry_bullets :: "string \<Rightarrow> string list" where
  \<comment> \<open>what the \<open>if\<close>/\<open>elif\<close> chain adds\<close>
  "industry_bullets industry =
     (if re_search_icase ''software'' industry then
        [''SaaS roadmap includes AI/ML modules'',
         ''Active in developer ecosystem; likely uses CI/CD'']
      else if re_search_icase ''manufact'' industry then
        [''Sustainable, lean operations focus'',
         ''Potential need for shop-floor IoT/SCADA integrations'']
      else if re_search_icase ''logistic'' industry then
        [''Fleet optimization & real-time tracking'',
         ''Likely evaluating warehouse automation'']
      else [''Expanding digital footprint''])"

definition add_insights :: "unicode_db \<Rightarrow> pydict \<Rightarrow> py_exception + string list" where
  "add_insights u j =
     (case lower_method (py_or (py_get j ''industry'') (PStr [])) of
        Inl e \<Rightarrow> Inl e
      | Inr industry \<Rightarrow>
     (case py_int u (py_get_default j ''employeeCount'' (PInt 0)) of
        Inl e \<Rightarrow> Inl e
      | Inr employee_count \<Rightarrow>
          let location = py_or (py_get j ''location'') (PStr []);
              bullets = [] @ industry_bullets industry;
              bullets = (if employee_count > 150
                         then bullets @ [''Mid-market team with scaling pains''] else bullets)
          in (case re_search_india location of
                Inl e \<Rightarrow> Inl e
              | Inr india \<Rightarrow>
                  Inr (take 3 (if india
                               then bullets @ [''Operating in India with regional growth'']
                               else bullets)))))"

section \<open>The e-mail generator\<close>

subsection \<open>Local template\<close>

text \<open>
  \<^verbatim>\<open>
  def generate_email_template(company, insights):
      bullets = "; ".join(insights)
      body = (f"Hi {company.get('companyName')},\n\n"
              f"I came across your work at {company.get('companyName')} and noticed: {bullets}. "
              f"We help teams like yours ... within a few weeks. "
              f"If it's useful, I can share a brief walkthrough tailored to "
              f"{company.get('industry')} and your current team size of "
              f"{company.get('employeeCount')}.\n\n"
              "Warm Regards,\n" "Rohith Dilip\n" "Wednesday Solutions")
      return {"company": company.get("companyName"),
              "subject": f"{company.get('companyName')}: quick idea to accelerate "
                         f"{company.get('industry').lower()} goals",
              "body": body, "tone": "consultative", "wordCount": len(body.split())}
  \<close>
  The apostrophe of the source text is U+2019, three bytes in UTF-8.  The body is built
  first and inserts the industry as it is; the subject calls \<open>.lower()\<close> on it, which
  only a string has.
\<close>

definition template_body :: "pydict \<Rightarrow> string list \<Rightarrow> string" where
  "template_body company insights =
     (let bullets = py_join ''; '' insights
      in ''Hi '' @ py_str (py_get company ''companyName'') @ '','' @ [LF, LF]
         @ ''I came across your work at '' @ py_str (py_get company ''companyName'')
         @ '' and noticed: '' @ bullets @ ''. ''
         @ ''We help teams like yours turn these priorities into measurable outcomes with a lightweight rollout and clear ROI within a few weeks. ''
         @ ''If it'' @ [CHR 0xE2, CHR 0x80, CHR 0x99]
         @ ''s useful, I can share a brief walkthrough tailored to ''
         @ py_str (py_get company ''industry'') @ '' and your current team size of ''
         @ py_str (py_get company ''employeeCount'') @ ''.'' @ [LF, LF]
         @ ''Warm Regards,'' @ [LF] @ ''Rohith Dilip'' @ [LF] @ ''Wednesday Solutions'')"

definition generate_email_template :: "pydict \<Rightarrow> string list \<Rightarrow> py_exception + pydict" where
  "generate_email_template company insights =
     (let body = template_body company insights
      in case lower_method (py_get company ''industry'') of
           Inl e \<Rightarrow> Inl e
         | Inr industry_lower \<Rightarrow>
             Inr [''company'' \<mapsto> py_get company ''companyName'',
                  ''subject'' \<mapsto> PStr (py_str (py_get company ''companyName'')
                                  @ '': quick idea to accelerate '' @ industry_lower @ '' goals''),
                  ''body'' \<mapsto> PStr body,
                  ''tone'' \<mapsto> PStr ''consultative'',
                  ''wordCount'' \<mapsto> PInt (int (length (py_split body)))])"

subsection \<open>Remote generation\<close>

text \<open>
  The surroundings of \<open>generate_email_with_groq\<close> are parameters of the model: the
  credential read from the process environment at start, the HTTP client
  (\<open>requests.post\<close>: an exception with its text, or a response) and the JSON decoder
  (\<open>json.loads\<close>: an exception with its text, or the decoded value).  The requests
  sent so far are the state the function passes on, so that a call to the remote
  service is visible in its result.
\<close>

record http_request =
  req_url :: string
  req_authorization :: string
  req_content_type :: string
  req_model :: string
  req_messages :: "(string \<times> string) list"
  req_temperature :: rat
  req_timeout :: nat

record http_response =
  resp_status_code :: nat
  resp_reason :: string
  resp_text :: string
  resp_json :: "string + pyval"

record environment =
  GROQ_API_KEY :: "string option"
  requests_post :: "http_request \<Rightarrow> string + http_response"
  json_loads :: "string \<Rightarrow> string + pyval"

definition DEFAULT_MODEL :: string where
  "DEFAULT_MODEL = ''moonshotai/kimi-k2-instruct''"

definition dq :: "string \<Rightarrow> string" where
  "dq s = DQ # s @ [DQ]"

definition system_msg :: string where
  "system_msg =
     ''You are a professional B2B sales assistant. ''
     @ ''Return output as strict JSON only (no prose, no backticks). ''
     @ ''Schema: {'' @ dq ''company'' @ '':'' @ dq ''string'' @ '','' @ dq ''subject'' @ '':''
     @ dq ''string'' @ '','' @ dq ''body'' @ '':'' @ dq ''string'' @ '','' @ dq ''tone'' @ '':''
     @ dq ''string'' @ '','' @ dq ''wordCount'' @ '':number} ''
     @ ''All fields must always be present. Ensure body has 80-120 words.''"

definition user_prompt :: "pydict \<Rightarrow> string list \<Rightarrow> string" where
  "user_prompt company insights =
     ''Company: '' @ py_str (py_get company ''companyName'') @ [LF]
     @ ''Website: '' @ py_str (py_get company ''website'') @ [LF]
     @ ''Industry: '' @ py_str (py_get company ''industry'') @ [LF]
     @ ''Employees: '' @ py_str (py_get company ''employeeCount'') @ [LF]
     @ ''Insights:'' @ [LF] @ py_join [LF] insights @ [LF, LF]
     @ ''Write a concise outreach email (80'' @ [CHR 0xE2, CHR 0x80, CHR 0x93]
     @ ''120 words) in a consultative and professional tone. ''
     @ ''The email should naturally reference the provided insights and be structured as a clear, personalized message to the company. ''
     @ ''Conclude the email with the following signature block:'' @ [LF, LF]
     @ ''Warm Regards,'' @ [LF] @ ''Rohith Dilip'' @ [LF] @ ''Wednesday Solutions''"

definition build_request :: "string \<Rightarrow> pydict \<Rightarrow> string list \<Rightarrow> http_request" where
  "build_request api_key company insights =
     \<lparr> req_url = ''https://api.groq.com/openai/v1/chat/completions'',
       req_authorization = ''Bearer '' @ api_key,
       req_content_type = ''application/json'',
       req_model = DEFAULT_MODEL,
       req_messages = [(''system'', system_msg), (''user'', user_prompt company insights)],
       req_temperature = 4 / 10,
       req_timeout = 30 \<rparr>"

definition raise_for_status :: "http_request \<Rightarrow> http_response \<Rightarrow> string option" where
  \<comment> \<open>\<open>resp.raise_for_status()\<close>: the text of the HTTPError for a 4xx or 5xx status\<close>
  "raise_for_status req resp =
     (let code = resp_status_code resp
      in if 400 \<le> code \<and> code < 500
         then Some (str_of_nat code @ '' Client Error: '' @ resp_reason resp @ '' for url: '' @ req_url req)
         else if 500 \<le> code \<and> code < 600
         then Some (str_of_nat code @ '' Server Error: '' @ resp_reason resp @ '' for url: '' @ req_url req)
         else None)"

definition get_method :: "pyval \<Rightarrow> string \<Rightarrow> pyval \<Rightarrow> string + pyval" where
  \<comment> \<open>\<open>v.get(k, dflt)\<close>; \<open>Inl\<close> is the text of the AttributeError when \<open>v\<close> is no dict\<close>
  "get_method v k dflt = (case v of
       PDict kvs \<Rightarrow> Inr (case map_of kvs k of None \<Rightarrow> dflt | Some x \<Rightarrow> x)
     | _ \<Rightarrow> Inl (no_attribute v ''get''))"

definition subscript0 :: "pyval \<Rightarrow> string + pyval" where
  \<comment> \<open>\<open>v[0]\<close>; \<open>Inl\<close> is the text of the exception raised\<close>
  "subscript0 v = (case v of
       PList xs \<Rightarrow> (case xs of [] \<Rightarrow> Inl ''list index out of range'' | x # _ \<Rightarrow> Inr x)
     | PStr s \<Rightarrow> (case s of [] \<Rightarrow> Inl ''string index out of range'' | c # _ \<Rightarrow> Inr (PStr [c]))
     | PDict kvs \<Rightarrow> Inl ''0''
     | _ \<Rightarrow> Inl (quoted (type_name v) @ '' object is not subscriptable''))"

definition message_content :: "pyval \<Rightarrow> string + string" where
  \<comment> \<open>\<open>(data.get("choices") or [{}])[0].get("message", {}).get("content", "")\<close>, which
      must be a string for the \<open>content.strip()\<close> that follows\<close>
  "message_content data =
     (case get_method data ''choices'' PNone of
        Inl m \<Rightarrow> Inl m
      | Inr choices \<Rightarrow>
     (case subscript0 (py_or choices (PList [PDict []])) of
        Inl m \<Rightarrow> Inl m
      | Inr choice \<Rightarrow>
     (case get_method choice ''message'' (PDict []) of
        Inl m \<Rightarrow> Inl m
      | Inr message \<Rightarrow>
     (case get_method message ''content'' (PStr []) of
        Inl m \<Rightarrow> Inl m
      | Inr content \<Rightarrow>
     (case content of
        PStr s \<Rightarrow> Inr s
      | _ \<Rightarrow> Inl (no_attribute content ''strip''))))))"

definition strip_fences :: "string \<Rightarrow> string" where
  \<comment> \<open>from \<open>cleaned = content.strip()\<close> to \<open>cleaned = "\n".join(cleaned_lines)\<close>\<close>
  "strip_fences content =
     (let cleaned = py_strip content
      in if startswith cleaned ''```''
         then (let cleaned = py_strip_chars ''`'' cleaned;
                   cleaned_lines = py_splitlines cleaned;
                   cleaned_lines =
                     (if cleaned_lines \<noteq> [] \<and> py_lower (py_strip (hd cleaned_lines)) = ''json''
                      then tl cleaned_lines else cleaned_lines)
               in py_join [LF] cleaned_lines)
         else cleaned)"

definition groq_result :: "pydict \<Rightarrow> pyval \<Rightarrow> string + pydict" where
  \<comment> \<open>the dictionary built from the decoded object; \<open>obj.get\<close> exists on a dict only\<close>
  "groq_result company obj = (case obj of
       PDict kvs \<Rightarrow>
         Inr [''company'' \<mapsto> py_or (py_get (map_of kvs) ''company'') (py_get company ''companyName''),
              ''subject'' \<mapsto> py_or (py_get (map_of kvs) ''subject'') (PStr ''Exploring a tailored approach''),
              ''body'' \<mapsto> py_or (py_get (map_of kvs) ''body'') (PStr []),
              ''tone'' \<mapsto> py_or (py_get (map_of kvs) ''tone'') (PStr ''consultative''),
              ''wordCount'' \<mapsto> py_or (py_get (map_of kvs) ''wordCount'') PNone,
              ''source'' \<mapsto> PStr ''groq'']
     | _ \<Rightarrow> Inl (no_attribute obj ''get''))"

definition exception_text :: "py_exception \<Rightarrow> string" where
  "exception_text e = (case e of AttributeError m \<Rightarrow> m | TypeError m \<Rightarrow> m | ValueError m \<Rightarrow> m
     | OverflowError m \<Rightarrow> m)"

definition template_fallback :: "pydict \<Rightarrow> string list \<Rightarrow> string \<Rightarrow> py_exception + pydict" where
  \<comment> \<open>\<open>result = generate_email_template(..); result["source"] = "template";
      result["error"] = err\<close>\<close>
  "template_fallback company insights err =
     (case generate_email_template company insights of
        Inl e \<Rightarrow> Inl e
      | Inr result \<Rightarrow> Inr (result(''source'' \<mapsto> PStr ''template'', ''error'' \<mapsto> PStr err)))"

definition key_missing :: "string option \<Rightarrow> bool" where
  \<comment> \<open>\<open>not api_key\<close>\<close>
  "key_missing k = (case k of None \<Rightarrow> True | Some s \<Rightarrow> s = [])"

definition remote_content ::
  "environment \<Rightarrow> http_request \<Rightarrow> (string \<times> http_response option) + (string \<times> http_response)" where
  \<comment> \<open>the \<open>try\<close> block from \<open>requests.post\<close> to the extraction of \<open>content\<close>: \<open>Inr\<close> is
      the content with the response, \<open>Inl\<close> the text of the exception raised, with the
      response when \<open>resp\<close> is bound\<close>
  "remote_content env req =
     (case requests_post env req of
        Inl m \<Rightarrow> Inl (m, None)
      | Inr resp \<Rightarrow>
     (case raise_for_status req resp of
        Some m \<Rightarrow> Inl (m, Some resp)
      | None \<Rightarrow>
     (case resp_json resp of
        Inl m \<Rightarrow> Inl (m, Some resp)
      | Inr data \<Rightarrow>
     (case message_content data of
        Inl m \<Rightarrow> Inl (m, Some resp)
      | Inr content \<Rightarrow> Inr (content, resp)))))"

definition parse_content :: "environment \<Rightarrow> pydict \<Rightarrow> string \<Rightarrow> string + pydict" where
  \<comment> \<open>the inner \<open>try\<close> block: \<open>Inl\<close> is the text of the exception its handler receives\<close>
  "parse_content env company content =
     (let cleaned = strip_fences content
      in case json_loads env cleaned of
           Inl m \<Rightarrow> Inl m
         | Inr obj \<Rightarrow> groq_result company obj)"

definition try_remote ::
  "environment \<Rightarrow> http_request \<Rightarrow> pydict \<Rightarrow> string list
     \<Rightarrow> (string \<times> http_response option) + (py_exception + pydict)" where
  \<comment> \<open>the outer \<open>try\<close> block: \<open>Inr\<close> is what it returns, \<open>Inl\<close> what its handler receives;
      an exception raised inside the inner handler reaches the outer one\<close>
  "try_remote env req company insights =
     (case remote_content env req of
        Inl failure \<Rightarrow> Inl failure
      | Inr (content, resp) \<Rightarrow>
          (case parse_content env company content of
             Inr result \<Rightarrow> Inr (Inr result)
           | Inl parse_err \<Rightarrow>
               (case template_fallback company insights
                       (''ParseError: '' @ parse_err @ ''; content='' @ take 300 content @ ''...'') of
                  Inl e \<Rightarrow> Inl (exception_text e, Some resp)
                | Inr result \<Rightarrow> Inr (Inr result))))"

definition generate_email_with_groq ::
  "environment \<Rightarrow> pydict \<Rightarrow> string list \<Rightarrow> http_request list
     \<Rightarrow> (py_exception + pydict) \<times> http_request list" where
  "generate_email_with_groq env company insights sent =
     (if key_missing (GROQ_API_KEY env)
      then (template_fallback company insights ''Missing GROQ_API_KEY'', sent)
      else
        let api_key = the (GROQ_API_KEY env);
            req = build_request api_key company insights
        in (case try_remote env req company insights of
              Inr r \<Rightarrow> (r, sent @ [req])
            | Inl (req_err, resp) \<Rightarrow>
                let err_text = (case resp of None \<Rightarrow> [] | Some rsp \<Rightarrow> take 300 (resp_text rsp))
                in (template_fallback company insights
                      (''RequestError: '' @ req_err @ ''; response='' @ err_text),
                    sent @ [req])))"

section \<open>Notions of the specification\<close>

text \<open>
  The definitions of this section follow the words of the specification, not the code;
  the theorems below compare the two.
\<close>

definition int_coercible :: "unicode_db \<Rightarrow> pyval \<Rightarrow> bool" where
  \<comment> \<open>a value that converts to an integer: an integer, a boolean, a float that is
      neither an infinity nor NaN, or a string that holds a decimal integer literal\<close>
  "int_coercible u v = (case v of
       PInt _ \<Rightarrow> True
     | PBool _ \<Rightarrow> True
     | PFloat x _ \<Rightarrow> (case x of Finite _ \<Rightarrow> True | _ \<Rightarrow> False)
     | PStr s \<Rightarrow> int_of_str u s \<noteq> None
     | _ \<Rightarrow> False)"

definition count_coercible :: "unicode_db \<Rightarrow> pydict \<Rightarrow> bool" where
  \<comment> \<open>the record has no \<open>employeeCount\<close>, or one that converts to an integer\<close>
  "count_coercible u r = (case r ''employeeCount'' of None \<Rightarrow> True | Some v \<Rightarrow> int_coercible u v)"

definition employeeCount_of :: "unicode_db \<Rightarrow> pydict \<Rightarrow> int option" where
  \<comment> \<open>the employee count of a record: 0 when the field is absent, the field converted
      to an integer otherwise, nothing when it does not convert\<close>
  "employeeCount_of u r = (case r ''employeeCount'' of
       None \<Rightarrow> Some 0
     | Some v \<Rightarrow> (case py_int u v of Inr n \<Rightarrow> Some n | Inl _ \<Rightarrow> None))"

definition field_text :: "pydict \<Rightarrow> string \<Rightarrow> string" where
  \<comment> \<open>the text of a field of a record, empty when the field is absent\<close>
  "field_text r k = (case r k of None \<Rightarrow> [] | Some v \<Rightarrow> py_str v)"

definition contains_ci :: "string \<Rightarrow> string \<Rightarrow> bool" where
  \<comment> \<open>\<open>needle\<close> is a substring of \<open>hay\<close>, case-insensitively\<close>
  "contains_ci hay needle = sublist (py_lower needle) (py_lower hay)"

definition company_matches :: "unicode_db \<Rightarrow> string \<Rightarrow> string \<Rightarrow> int \<Rightarrow> int \<Rightarrow> pydict \<Rightarrow> bool" where
  \<comment> \<open>the matching rule of the filter engine, for one record\<close>
  "company_matches u industryQuery locationQuery sizeMin sizeMax r =
     ((\<exists>n. employeeCount_of u r = Some n \<and> sizeMin \<le> n \<and> n \<le> sizeMax)
      \<and> (industryQuery = []
           \<or> contains_ci (field_text r ''industry'') (py_lower (py_strip industryQuery)))
      \<and> (locationQuery = []
           \<or> contains_ci (field_text r ''location'') (py_lower (py_strip locationQuery))))"

definition text_or_missing :: "pydict \<Rightarrow> string \<Rightarrow> bool" where
  \<comment> \<open>the field is absent, null or a string\<close>
  "text_or_missing r k = (case r k of
       None \<Rightarrow> True | Some PNone \<Rightarrow> True | Some (PStr _) \<Rightarrow> True | Some _ \<Rightarrow> False)"

definition company_shaped :: "unicode_db \<Rightarrow> pydict \<Rightarrow> bool" where
  \<comment> \<open>a company record whose fields, where present, have the types of the data model\<close>
  "company_shaped u r =
     (text_or_missing r ''industry'' \<and> text_or_missing r ''location'' \<and> count_coercible u r)"

definition text_of :: "pydict \<Rightarrow> string \<Rightarrow> string" where
  \<comment> \<open>a text field read by the insight generator: empty when absent or null\<close>
  "text_of r k = (case r k of Some (PStr s) \<Rightarrow> s | _ \<Rightarrow> [])"

definition industry_insights :: "string \<Rightarrow> string list" where
  \<comment> \<open>steps 1 to 4 of the insight algorithm\<close>
  "industry_insights industry =
     (if contains_ci industry ''software'' then
        [''SaaS roadmap includes AI/ML modules'',
         ''Active in developer ecosystem; likely uses CI/CD'']
      else if contains_ci industry ''manufact'' then
        [''Sustainable, lean operations focus'',
         ''Potential need for shop-floor IoT/SCADA integrations'']
      else if contains_ci industry ''logistic'' then
        [''Fleet optimization & real-time tracking'',
         ''Likely evaluating warehouse automation'']
      else [''Expanding digital footprint''])"

definition size_bullets :: "int \<Rightarrow> string list" where
  "size_bullets n = (if n > 150 then [''Mid-market team with scaling pains''] else [])"

definition standalone_IN :: "string \<Rightarrow> bool" where
  \<comment> \<open>the word "IN" occurs as a token of its own, in any case\<close>
  "standalone_IN loc = (\<exists>pre w post. loc = pre @ w @ post \<and> py_lower w = ''in''
       \<and> (pre = [] \<or> \<not> is_word_char (last pre)) \<and> (post = [] \<or> \<not> is_word_char (hd post)))"

definition IN_at :: "bool \<Rightarrow> string \<Rightarrow> string \<Rightarrow> string \<Rightarrow> bool" where
  \<comment> \<open>\<open>w\<close> is the word "IN" between \<open>pre\<close> and \<open>post\<close>; the flag tells whether a word
      character stands before the text\<close>
  "IN_at pw pre w post = (py_lower w = ''in''
        \<and> (if pre = [] then \<not> pw else \<not> is_word_char (last pre))
        \<and> (post = [] \<or> \<not> is_word_char (hd post)))"

definition location_bullets :: "string \<Rightarrow> string list" where
  "location_bullets loc =
     (if standalone_IN loc \<or> contains_ci loc ''India''
      then [''Operating in India with regional growth''] else [])"

definition token_starts :: "bool \<Rightarrow> string \<Rightarrow> nat set" where
  \<comment> \<open>the positions where a white-space-delimited token begins; the flag tells whether
      one may begin at position 0\<close>
  "token_starts at_start s =
     {i. i < length s \<and> \<not> py_isspace (s ! i)
         \<and> (if i = 0 then at_start else py_isspace (s ! (i - 1)))}"

definition token_count :: "string \<Rightarrow> nat" where
  \<comment> \<open>the number of white-space-delimited tokens of a text\<close>
  "token_count s = card (token_starts True s)"

definition outcome_field :: "py_exception + pydict \<Rightarrow> string \<Rightarrow> pyval option" where
  \<comment> \<open>a field of the e-mail result a call returned, nothing when it raised\<close>
  "outcome_field res k = (case res of Inl _ \<Rightarrow> None | Inr r \<Rightarrow> r k)"

definition result_field :: "(py_exception + pydict) \<times> http_request list \<Rightarrow> string \<Rightarrow> pyval option" where
  \<comment> \<open>the same for a call that also passes on the requests sent\<close>
  "result_field res k = outcome_field (fst res) k"

section \<open>Sample inputs\<close>

definition AEROLOGIX_INSIGHTS :: "string list" where
  "AEROLOGIX_INSIGHTS = [''Fleet optimization & real-time tracking'',
     ''Likely evaluating warehouse automation'', ''Mid-market team with scaling pains'']"

definition EMPTY_RECORD :: pydict where
  "EMPTY_RECORD = Map.empty"

definition BAD_COUNT :: pydict where
  "BAD_COUNT = [''companyName'' \<mapsto> PStr ''Acme'', ''employeeCount'' \<mapsto> PStr ''abc'',
     ''industry'' \<mapsto> PStr ''Retail'', ''location'' \<mapsto> PStr ''Remote'']"

definition NO_COUNT :: pydict where
  "NO_COUNT = [''companyName'' \<mapsto> PStr ''Acme'', ''industry'' \<mapsto> PStr ''Retail'']"

fun fullwidth_to_ascii :: "string \<Rightarrow> string" where
  "fullwidth_to_ascii [] = []"
| "fullwidth_to_ascii (a # rest) =
     (if is_ascii a then a # fullwidth_to_ascii rest
      else (case rest of
              b # c # rest' \<Rightarrow>
                if a = CHR 0xEF \<and> b = CHR 0xBC \<and> 0x90 \<le> (of_char c :: nat) \<and> (of_char c :: nat) \<le> 0x99
                then char_of ((of_char c :: nat) - 0x60) # fullwidth_to_ascii rest'
                else ''?''
            | _ \<Rightarrow> ''?''))"

definition SAMPLE_UNICODE :: unicode_db where
  \<comment> \<open>a table that knows the full-width digits U+FF10 to U+FF19 (the bytes EF BC 90
      to EF BC 99) and nothing else outside ASCII; it stands for the interpreter's
      table in the sample runs below\<close>
  "SAMPLE_UNICODE = fullwidth_to_ascii"

definition FLOAT_COUNT :: pydict where
  "FLOAT_COUNT = [''companyName'' \<mapsto> PStr ''Acme'',
     ''employeeCount'' \<mapsto> PFloat (Finite (127 / 10)) ''12.7'']"

definition FULLWIDTH_COUNT :: pydict where
  \<comment> \<open>the employee count is the text of the two full-width digits 4 and 2\<close>
  "FULLWIDTH_COUNT = [''companyName'' \<mapsto> PStr ''Acme'',
     ''employeeCount'' \<mapsto> PStr [CHR 0xEF, CHR 0xBC, CHR 0x94, CHR 0xEF, CHR 0xBC, CHR 0x92]]"

definition NULL_COUNT :: pydict where
  "NULL_COUNT = [''companyName'' \<mapsto> PStr ''Acme'', ''employeeCount'' \<mapsto> PNone]"

definition TEXT_COUNT :: pydict where
  "TEXT_COUNT = [''companyName'' \<mapsto> PStr ''Acme'', ''employeeCount'' \<mapsto> PStr '' 42 '']"

definition NO_INDUSTRY :: pydict where
  "NO_INDUSTRY = [''companyName'' \<mapsto> PStr ''Acme'', ''employeeCount'' \<mapsto> PInt 12]"

definition sample_loads :: "string \<Rightarrow> string + pyval" where
  \<comment> \<open>\<open>json.loads\<close> on the documents used below: an empty object, an empty array, and
      text that is no JSON document\<close>
  "sample_loads s =
     (if s = ''{}'' then Inr (PDict [])
      else if s = ''[]'' then Inr (PList [])
      else Inl ''Expecting value: line 1 column 1 (char 0)'')"

definition sample_response :: "string \<Rightarrow> http_response" where
  \<comment> \<open>a successful chat completion whose first choice carries the given content\<close>
  "sample_response content =
     \<lparr> resp_status_code = 200, resp_reason = ''OK'',
       resp_text = ''{'' @ dq ''choices'' @ '': [{'' @ dq ''message'' @ '': {'' @ dq ''content''
                   @ '': '' @ dq content @ ''}}]}'',
       resp_json = Inr (PDict [(''choices'',
                     PList [PDict [(''message'', PDict [(''content'', PStr content)])]])]) \<rparr>"

definition env_no_key :: environment where
  "env_no_key = \<lparr> GROQ_API_KEY = None,
                  requests_post = (\<lambda>req. Inl ''connection refused''),
                  json_loads = sample_loads \<rparr>"

definition env_replying :: "string \<Rightarrow> environment" where
  \<comment> \<open>a configured credential and a service that answers with the given content\<close>
  "env_replying content = \<lparr> GROQ_API_KEY = Some ''gsk_test'',
                            requests_post = (\<lambda>req. Inr (sample_response content)),
                            json_loads = sample_loads \<rparr>"

section \<open>Lemmas about the string operations\<close>

lemmas char_eval = char_of_def bit_Suc_0_iff

lemma startswith_prefix: "startswith s p = prefix p s"
  by (induction s p rule: startswith.induct) auto

lemma py_in_sublist: "py_in needle hay = sublist needle hay"
proof (induction hay)
  case Nil
  show ?case by simp
next
  case (Cons c cs)
  then show ?case by (simp add: sublist_Cons_right startswith_prefix)
qed

lemma isspace_lower_char: "py_isspace (lower_char c) = py_isspace c"
  by (auto simp: py_isspace_def lower_char_def Let_def)

lemma lower_char_idem: "lower_char (lower_char c) = lower_char c"
  by (auto simp: lower_char_def Let_def)

lemma py_lower_idem: "py_lower (py_lower s) = py_lower s"
  by (simp add: py_lower_def lower_char_idem)

lemma dropWhile_space_lower:
  "dropWhile py_isspace (map lower_char s) = map lower_char (dropWhile py_isspace s)"
  by (induction s) (auto simp: isspace_lower_char)

lemma strip_lower_commute: "py_strip (py_lower s) = py_lower (py_strip s)"
proof -
  have "dropWhile py_isspace (rev (map lower_char (dropWhile py_isspace s)))
        = map lower_char (dropWhile py_isspace (rev (dropWhile py_isspace s)))"
    by (simp only: rev_map dropWhile_space_lower)
  then show ?thesis
    by (simp add: py_strip_def py_lower_def dropWhile_space_lower rev_map)
qed

section \<open>The filter loop\<close>

lemma py_int_coercible: "(\<exists>n. py_int u v = Inr n) = int_coercible u v"
  by (cases v)
    (auto simp: py_int_def int_coercible_def int_of_float_def
      split: option.splits float_value.splits)

lemma employeeCount_of_py_int:
  "employeeCount_of u r =
     (case py_int u (py_get_default r ''employeeCount'' (PInt 0)) of Inr n \<Rightarrow> Some n | Inl e \<Rightarrow> None)"
  by (simp add: employeeCount_of_def py_get_default_def py_int_def split: option.splits)

lemma employeeCount_of_coercible: "(employeeCount_of u r \<noteq> None) = count_coercible u r"
proof (cases "r ''employeeCount''")
  case None
  then show ?thesis by (simp add: employeeCount_of_def count_coercible_def)
next
  case (Some v)
  have "(\<exists>n. py_int u v = Inr n) = int_coercible u v" by (rule py_int_coercible)
  then show ?thesis using Some
    by (auto simp: employeeCount_of_def count_coercible_def split: sum.splits)
qed

lemma query_clause:
  "(if py_strip (py_lower (str_or_empty q)) \<noteq> []
    then py_in (py_strip (py_lower (str_or_empty q))) (py_lower (py_str (py_get_default r k (PStr []))))
    else True)
   = (q = [] \<or> contains_ci (field_text r k) (py_lower (py_strip q)))"
proof -
  have ft: "py_str (py_get_default r k (PStr [])) = field_text r k"
    by (simp add: py_get_default_def field_text_def py_str_def split: option.splits)
  have q: "py_strip (py_lower (str_or_empty q)) = py_lower (py_strip q)"
    by (simp add: str_or_empty_def strip_lower_commute)
  have e: "q = [] \<Longrightarrow> py_lower (py_strip q) = []"
    by (simp add: py_lower_def py_strip_def)
  show ?thesis
    unfolding ft q using e
    by (auto simp: contains_ci_def py_in_sublist py_lower_idem)
qed

lemma filter_loop_step:
  assumes "employeeCount_of u r = Some n"
  shows "filter_loop u (py_strip (py_lower (str_or_empty iq))) (py_strip (py_lower (str_or_empty lq)))
           lo hi out (r # rs)
         = filter_loop u (py_strip (py_lower (str_or_empty iq))) (py_strip (py_lower (str_or_empty lq)))
           lo hi (if company_matches u iq lq lo hi r then out @ [r] else out) rs"
proof -
  from assms have n: "py_int u (py_get_default r ''employeeCount'' (PInt 0)) = Inr n"
    by (simp add: employeeCount_of_py_int split: sum.splits)
  have m: "company_matches u iq lq lo hi r =
        ((lo \<le> n \<and> n \<le> hi)
         \<and> (iq = [] \<or> contains_ci (field_text r ''industry'') (py_lower (py_strip iq)))
         \<and> (lq = [] \<or> contains_ci (field_text r ''location'') (py_lower (py_strip lq))))"
    by (simp add: company_matches_def assms)
  show ?thesis
    unfolding filter_loop.simps n sum.case Let_def query_clause m [symmetric]
    by simp
qed

lemma filter_loop_raises:
  assumes "employeeCount_of u r = None"
  shows "\<exists>e. filter_loop u q1 q2 lo hi out (r # rs) = Inl e"
  using assms by (simp add: employeeCount_of_py_int split: sum.splits)

lemma filter_loop_filter:
  assumes "\<forall>r \<in> set items. count_coercible u r"
  shows "filter_loop u (py_strip (py_lower (str_or_empty iq))) (py_strip (py_lower (str_or_empty lq)))
           lo hi out items
         = Inr (out @ filter (company_matches u iq lq lo hi) items)"
  using assms
proof (induction items arbitrary: out)
  case Nil
  show ?case by simp
next
  case (Cons r rs)
  from Cons.prems have "count_coercible u r" by simp
  then have "employeeCount_of u r \<noteq> None"
    by (simp only: employeeCount_of_coercible)
  then obtain n where en: "employeeCount_of u r = Some n" by auto
  have rest: "\<forall>r \<in> set rs. count_coercible u r" using Cons.prems by simp
  show ?case
    unfolding filter_loop_step [OF en] Cons.IH [OF rest] by simp
qed

lemma filter_loop_total:
  "(\<exists>res. filter_loop u q1 q2 lo hi out items = Inr res) = (\<forall>r \<in> set items. count_coercible u r)"
proof (induction items arbitrary: out)
  case Nil
  show ?case by simp
next
  case (Cons r rs)
  show ?case
  proof (cases "py_int u (py_get_default r ''employeeCount'' (PInt 0))")
    case (Inl e)
    then have "\<not> count_coercible u r"
      by (simp add: employeeCount_of_coercible [symmetric] employeeCount_of_py_int)
    with Inl show ?thesis by simp
  next
    case (Inr n)
    then have "count_coercible u r"
      by (simp add: employeeCount_of_coercible [symmetric] employeeCount_of_py_int)
    with Inr show ?thesis by (simp add: Let_def Cons.IH)
  qed
qed

lemma seed_coercible: "\<forall>r \<in> set SEED_COMPANIES. count_coercible u r"
  by (simp add: SEED_COMPANIES_def TECHNOVA_def GREENMAKERS_def AEROLOGIX_def
      count_coercible_def int_coercible_def)

lemma filter_single:
  assumes "employeeCount_of u r = Some n"
  shows "filter_companies u [r] [] [] lo hi = Inr (if lo \<le> n \<and> n \<le> hi then [r] else [])"
proof -
  have "count_coercible u r"
    using assms employeeCount_of_coercible [of u r] by simp
  then have "filter_loop u (py_strip (py_lower (str_or_empty []))) (py_strip (py_lower (str_or_empty [])))
           lo hi [] [r] = Inr ([] @ filter (company_matches u [] [] lo hi) [r])"
    by (intro filter_loop_filter) simp
  then show ?thesis
    by (simp add: filter_companies_def company_matches_def assms)
qed

subsection \<open>\<open>int()\<close> on sample values\<close>

lemma text_count_int: "py_int u (PStr '' 42 '') = Inr 42"
  by (simp add: py_int_def int_of_str_def ascii_int_literal_def is_ascii_def c_isspace_def
      valid_int_digits_def is_digit_def digits_value_def digit_val_def Let_def)

lemma abc_count_int:
  "py_int u (PStr ''abc'')
   = Inl (ValueError (''invalid literal for int() with base 10: '' @ quoted ''abc''))"
  by (simp add: py_int_def int_of_str_def ascii_int_literal_def is_ascii_def
      c_isspace_def valid_int_digits_def is_digit_def repr_str_def repr_char_def quoted_def
      SQ_def DQ_def BSL_def Let_def)

lemma float_count_int: "py_int u (PFloat (Finite (127 / 10)) ''12.7'') = Inr 12"
proof -
  have "\<lfloor>127 / 10 :: rat\<rfloor> = 12" by (simp add: floor_eq_iff)
  then show ?thesis by (simp add: py_int_def int_of_float_def)
qed

lemma fullwidth_count_int:
  "py_int SAMPLE_UNICODE (PStr [CHR 0xEF, CHR 0xBC, CHR 0x94, CHR 0xEF, CHR 0xBC, CHR 0x92]) = Inr 42"
  by (simp add: py_int_def int_of_str_def SAMPLE_UNICODE_def ascii_int_literal_def is_ascii_def
      c_isspace_def valid_int_digits_def is_digit_def digits_value_def digit_val_def Let_def
      char_eval)

lemma null_count_int:
  "py_int u PNone
   = Inl (TypeError (''int() argument must be a string, a bytes-like object or a real number, not ''
            @ quoted ''NoneType''))"
  by (simp add: py_int_def type_name_def)

lemma bad_count_raises:
  "filter_loop u q1 q2 lo hi out (BAD_COUNT # rs)
   = Inl (ValueError (''invalid literal for int() with base 10: '' @ quoted ''abc''))"
  by (simp add: BAD_COUNT_def py_get_default_def abc_count_int)

section \<open>Claims about the filter engine\<close>

text \<open>
  C1, as stated, fails: it promises the list filter for every input list, but the
  loop converts each \<open>employeeCount\<close> with \<open>int()\<close> before it tests anything, and nothing
  handles the exception of a count that does not convert.  On the seed record TechNova
  followed by a record whose count is the text \<open>abc\<close>, the matching rule selects
  TechNova, and the call raises \<open>ValueError\<close>.
\<close>

theorem filter_companies_not_filter:
  "filter_companies SAMPLE_UNICODE [TECHNOVA, BAD_COUNT] ''soft'' [] 0 999999
     = Inl (ValueError (''invalid literal for int() with base 10: '' @ quoted ''abc''))
   \<and> filter (company_matches SAMPLE_UNICODE ''soft'' [] 0 999999) [TECHNOVA, BAD_COUNT] = [TECHNOVA]"
proof -
  have t: "employeeCount_of SAMPLE_UNICODE TECHNOVA = Some 120"
    by (simp add: employeeCount_of_def TECHNOVA_def py_int_def)
  have b: "employeeCount_of SAMPLE_UNICODE BAD_COUNT = None"
    by (simp add: employeeCount_of_def BAD_COUNT_def abc_count_int)
  have m: "company_matches SAMPLE_UNICODE ''soft'' [] 0 999999 TECHNOVA"
    unfolding company_matches_def t
    by (simp add: TECHNOVA_def field_text_def py_str_def
        contains_ci_def py_in_sublist [symmetric] py_strip_def py_isspace_def
        py_lower_def lower_char_def char_eval)
  have n: "\<not> company_matches SAMPLE_UNICODE ''soft'' [] 0 999999 BAD_COUNT"
    by (simp add: company_matches_def b)
  have "filter_companies SAMPLE_UNICODE [TECHNOVA, BAD_COUNT] ''soft'' [] 0 999999
     = Inl (ValueError (''invalid literal for int() with base 10: '' @ quoted ''abc''))"
    unfolding filter_companies_def filter_loop_step [OF t] by (simp only: bad_count_raises)
  with m n show ?thesis by simp
qed

text \<open>
  C1, amended.  For every input list whose records have an \<open>employeeCount\<close> that is
  absent or converts to an integer, \<open>filter_companies\<close> returns exactly the records
  that satisfy the matching rule, in input order and with repetitions kept: the
  employee count lies in \<open>[sizeMin, sizeMax]\<close>, and each query is empty or, trimmed and
  lower-cased, a case-insensitive substring of the field.  The result is the list
  filter of that rule.
\<close>

theorem filter_companies_is_filter:
  assumes "\<forall>r \<in> set records. count_coercible u r"
  shows "filter_companies u records industryQuery locationQuery sizeMin sizeMax
         = Inr (filter (company_matches u industryQuery locationQuery sizeMin sizeMax) records)"
  using filter_loop_filter [OF assms, of industryQuery locationQuery sizeMin sizeMax "[]"]
  by (simp add: filter_companies_def)

theorem filter_companies_is_filter_witness:
  "list_all (count_coercible SAMPLE_UNICODE) SEED_COMPANIES
   \<and> filter_companies SAMPLE_UNICODE SEED_COMPANIES ''SOFT'' [] 0 999999 = Inr [TECHNOVA]"
proof -
  have "filter (company_matches SAMPLE_UNICODE ''SOFT'' [] 0 999999) SEED_COMPANIES = [TECHNOVA]"
    by (simp add: SEED_COMPANIES_def TECHNOVA_def GREENMAKERS_def AEROLOGIX_def
        company_matches_def employeeCount_of_def py_int_def field_text_def py_str_def
        contains_ci_def py_in_sublist [symmetric] py_strip_def py_isspace_def
        py_lower_def lower_char_def char_eval)
  with filter_companies_is_filter [OF seed_coercible, of SAMPLE_UNICODE "''SOFT''" "[]" 0 999999]
    seed_coercible [of SAMPLE_UNICODE]
  show ?thesis by (simp add: list_all_iff)
qed

text \<open>
  C5, as stated, fails: \<open>int()\<close> raises on a value that is no number and no integer
  literal, and \<open>filter_companies\<close> has no handler for it.  A record whose
  \<open>employeeCount\<close> is the string \<open>abc\<close> makes the call raise \<open>ValueError\<close>.
\<close>

theorem filter_companies_bad_count:
  "filter_companies SAMPLE_UNICODE [BAD_COUNT] [] [] 0 999999
   = Inl (ValueError (''invalid literal for int() with base 10: '' @ quoted ''abc''))"
  by (simp only: filter_companies_def bad_count_raises)

text \<open>
  C5, amended.  On records of JSON values, \<open>filter_companies\<close> returns a list exactly
  when every record's \<open>employeeCount\<close> is absent or converts to an integer: it is an
  integer, a boolean, a float that is neither an infinity nor NaN, or a string that
  \<open>int()\<close> reads as a decimal integer literal (digits of any script).  An absent
  \<open>employeeCount\<close> counts as 0, and a present one counts as the integer \<open>int()\<close> gives
  (a float is cut off towards zero).  A record whose \<open>employeeCount\<close> is \<open>None\<close>, a list,
  a dictionary, an infinity, NaN or any other string makes the call raise.
\<close>

theorem filter_companies_total_iff:
  "((\<exists>out. filter_companies u records industryQuery locationQuery sizeMin sizeMax = Inr out)
      = list_all (count_coercible u) records)
   \<and> (r0 ''employeeCount'' = None \<longrightarrow>
        filter_companies u [r0] [] [] sizeMin sizeMax
        = Inr (if sizeMin \<le> 0 \<and> 0 \<le> sizeMax then [r0] else []))
   \<and> (r1 ''employeeCount'' = Some v \<and> py_int u v = Inr n \<longrightarrow>
        filter_companies u [r1] [] [] sizeMin sizeMax
        = Inr (if sizeMin \<le> n \<and> n \<le> sizeMax then [r1] else []))
   \<and> (r2 ''employeeCount'' = Some w \<and> py_int u w = Inl e \<longrightarrow>
        filter_companies u (r2 # records) industryQuery locationQuery sizeMin sizeMax = Inl e)"
proof (intro conjI impI)
  show "(\<exists>out. filter_companies u records industryQuery locationQuery sizeMin sizeMax = Inr out)
      = list_all (count_coercible u) records"
    unfolding filter_companies_def filter_loop_total list_all_iff ..
next
  assume "r0 ''employeeCount'' = None"
  then have "employeeCount_of u r0 = Some 0" by (simp add: employeeCount_of_def)
  then show "filter_companies u [r0] [] [] sizeMin sizeMax
        = Inr (if sizeMin \<le> 0 \<and> 0 \<le> sizeMax then [r0] else [])"
    by (rule filter_single)
next
  assume "r1 ''employeeCount'' = Some v \<and> py_int u v = Inr n"
  then have "employeeCount_of u r1 = Some n" by (simp add: employeeCount_of_def)
  then show "filter_companies u [r1] [] [] sizeMin sizeMax
        = Inr (if sizeMin \<le> n \<and> n \<le> sizeMax then [r1] else [])"
    by (rule filter_single)
next
  assume "r2 ''employeeCount'' = Some w \<and> py_int u w = Inl e"
  then show "filter_companies u (r2 # records) industryQuery locationQuery sizeMin sizeMax = Inl e"
    by (simp add: filter_companies_def py_get_default_def)
qed

theorem filter_companies_total_iff_witness:
  "list_all (count_coercible SAMPLE_UNICODE) [NO_COUNT, TEXT_COUNT, FLOAT_COUNT, FULLWIDTH_COUNT]
   \<and> (\<exists>out. filter_companies SAMPLE_UNICODE [NO_COUNT, TEXT_COUNT, FLOAT_COUNT, FULLWIDTH_COUNT]
         [] [] 0 20 = Inr out)
   \<and> NO_COUNT ''employeeCount'' = None
   \<and> filter_companies SAMPLE_UNICODE [NO_COUNT] [] [] 0 20 = Inr [NO_COUNT]
   \<and> FLOAT_COUNT ''employeeCount'' = Some (PFloat (Finite (127 / 10)) ''12.7'')
   \<and> py_int SAMPLE_UNICODE (PFloat (Finite (127 / 10)) ''12.7'') = Inr 12
   \<and> filter_companies SAMPLE_UNICODE [FLOAT_COUNT] [] [] 0 20 = Inr [FLOAT_COUNT]
   \<and> NULL_COUNT ''employeeCount'' = Some PNone
   \<and> filter_companies SAMPLE_UNICODE [NULL_COUNT, NO_COUNT, TEXT_COUNT, FLOAT_COUNT, FULLWIDTH_COUNT]
         [] [] 0 20
       = Inl (TypeError
           (''int() argument must be a string, a bytes-like object or a real number, not ''
            @ quoted ''NoneType''))"
proof -
  have f: "int_coercible SAMPLE_UNICODE (PStr [CHR 0xEF, CHR 0xBC, CHR 0x94, CHR 0xEF, CHR 0xBC, CHR 0x92])"
    using fullwidth_count_int
    by (simp only: py_int_coercible [symmetric]) blast
  have t: "int_coercible SAMPLE_UNICODE (PStr '' 42 '')"
    using text_count_int [of SAMPLE_UNICODE]
    by (simp only: py_int_coercible [symmetric]) blast
  have c: "list_all (count_coercible SAMPLE_UNICODE) [NO_COUNT, TEXT_COUNT, FLOAT_COUNT, FULLWIDTH_COUNT]"
    using f t
    by (simp add: NO_COUNT_def TEXT_COUNT_def FLOAT_COUNT_def FULLWIDTH_COUNT_def
        count_coercible_def int_coercible_def)
  have a: "NO_COUNT ''employeeCount'' = None" by (simp add: NO_COUNT_def)
  have b: "FLOAT_COUNT ''employeeCount'' = Some (PFloat (Finite (127 / 10)) ''12.7'')"
    by (simp add: FLOAT_COUNT_def)
  have d: "NULL_COUNT ''employeeCount'' = Some PNone" by (simp add: NULL_COUNT_def)
  note fl = float_count_int [of SAMPLE_UNICODE]
  note nl = null_count_int [of SAMPLE_UNICODE]
  show ?thesis
    using c a b d fl nl
      filter_companies_total_iff [of SAMPLE_UNICODE
        "[NO_COUNT, TEXT_COUNT, FLOAT_COUNT, FULLWIDTH_COUNT]" "[]" "[]" 0 20
        NO_COUNT FLOAT_COUNT "PFloat (Finite (127 / 10)) ''12.7''" 12 NULL_COUNT PNone
        "TypeError (''int() argument must be a string, a bytes-like object or a real number, not ''
            @ quoted ''NoneType'')"]
    by simp
qed

text \<open>
  C10, as stated, fails: it promises the empty list for every input list, but the
  count of each record is converted before the bounds are looked at.  With the bounds
  300 and 200, a record whose \<open>employeeCount\<close> is the string \<open>abc\<close> makes the call
  raise \<open>ValueError\<close>.
\<close>

theorem inverted_range_bad_count:
  "filter_companies SAMPLE_UNICODE [BAD_COUNT] [] [] 300 200
   = Inl (ValueError (''invalid literal for int() with base 10: '' @ quoted ''abc''))"
  by (simp only: filter_companies_def bad_count_raises)

text \<open>
  C10, amended.  With \<open>sizeMin > sizeMax\<close> no record is selected: on every input list
  whose records have an \<open>employeeCount\<close> that is absent or converts to an integer, and
  for all queries, the result is the empty list, and no call returns anything else.
  The bounds are used as given, with no validation, swapping or error for the
  inverted range.
\<close>

theorem inverted_range_is_empty:
  assumes "sizeMax < sizeMin"
  shows "(list_all (count_coercible u) records \<longrightarrow>
            filter_companies u records industryQuery locationQuery sizeMin sizeMax = Inr [])
         \<and> (\<forall>out. filter_companies u records industryQuery locationQuery sizeMin sizeMax = Inr out
                \<longrightarrow> out = [])"
proof -
  have none: "filter (company_matches u industryQuery locationQuery sizeMin sizeMax) records = []"
    using assms by (auto simp: company_matches_def filter_empty_conv)
  have 1: "filter_companies u records industryQuery locationQuery sizeMin sizeMax = Inr []"
    if "list_all (count_coercible u) records"
    using filter_loop_filter [of records u industryQuery locationQuery sizeMin sizeMax "[]"] that none
    by (simp add: filter_companies_def list_all_iff)
  have 2: "out = []"
    if "filter_companies u records industryQuery locationQuery sizeMin sizeMax = Inr out" for out
  proof -
    from that have "\<exists>res. filter_loop u (py_strip (py_lower (str_or_empty industryQuery)))
        (py_strip (py_lower (str_or_empty locationQuery))) sizeMin sizeMax [] records = Inr res"
      by (auto simp: filter_companies_def)
    then have "list_all (count_coercible u) records"
      by (simp only: filter_loop_total list_all_iff)
    from 1 [OF this] that show ?thesis by simp
  qed
  from 1 2 show ?thesis by blast
qed

theorem inverted_range_is_empty_witness:
  "(200::int) < 300 \<and> list_all (count_coercible SAMPLE_UNICODE) SEED_COMPANIES
   \<and> filter_companies SAMPLE_UNICODE SEED_COMPANIES [] ''IN'' 300 200 = Inr []"
proof -
  have c: "list_all (count_coercible SAMPLE_UNICODE) SEED_COMPANIES"
    using seed_coercible [of SAMPLE_UNICODE] by (simp add: list_all_iff)
  from inverted_range_is_empty [of 200 300 SAMPLE_UNICODE SEED_COMPANIES "[]" "''IN''"] c
  show ?thesis by simp
qed


section \<open>The insight rules\<close>

lemma py_lower_length: "length (py_lower s) = length s"
  by (simp add: py_lower_def)

lemma after_word_conv:
  "(case post of [] \<Rightarrow> True | d # ds \<Rightarrow> \<not> is_word_char d) = (post = [] \<or> \<not> is_word_char (hd post))"
  by (cases post) auto

lemma IN_here:
  "(\<not> pw \<and> py_lower (take 2 s) = ''in'' \<and> (drop 2 s = [] \<or> \<not> is_word_char (hd (drop 2 s))))
   = (\<exists>w post. s = w @ post \<and> IN_at pw [] w post)"
proof
  assume h: "\<not> pw \<and> py_lower (take 2 s) = ''in'' \<and> (drop 2 s = [] \<or> \<not> is_word_char (hd (drop 2 s)))"
  have "s = take 2 s @ drop 2 s" by simp
  moreover from h have "IN_at pw [] (take 2 s) (drop 2 s)" by (simp add: IN_at_def)
  ultimately show "\<exists>w post. s = w @ post \<and> IN_at pw [] w post" by blast
next
  assume "\<exists>w post. s = w @ post \<and> IN_at pw [] w post"
  then obtain w post where s: "s = w @ post" and p: "IN_at pw [] w post" by blast
  from p have "length (py_lower w) = 2" by (simp add: IN_at_def)
  then have lw: "length w = 2" by (simp add: py_lower_length)
  have t: "take 2 s = w" and d: "drop 2 s = post" using lw by (simp_all add: s)
  from p show "\<not> pw \<and> py_lower (take 2 s) = ''in'' \<and> (drop 2 s = [] \<or> \<not> is_word_char (hd (drop 2 s)))"
    unfolding t d by (simp add: IN_at_def)
qed

lemma IN_later:
  "(\<exists>pre w post. cs = pre @ w @ post \<and> IN_at (is_word_char c) pre w post)
   = (\<exists>pre w post. pre \<noteq> [] \<and> c # cs = pre @ w @ post \<and> IN_at pw pre w post)"
proof
  assume "\<exists>pre w post. cs = pre @ w @ post \<and> IN_at (is_word_char c) pre w post"
  then obtain pre w post where s: "cs = pre @ w @ post" and p: "IN_at (is_word_char c) pre w post"
    by blast
  have 1: "c # cs = (c # pre) @ w @ post" by (simp add: s)
  have 2: "IN_at pw (c # pre) w post"
    using p by (cases "pre = []") (simp_all add: IN_at_def)
  from 1 2 show "\<exists>pre w post. pre \<noteq> [] \<and> c # cs = pre @ w @ post \<and> IN_at pw pre w post"
    by blast
next
  assume "\<exists>pre w post. pre \<noteq> [] \<and> c # cs = pre @ w @ post \<and> IN_at pw pre w post"
  then obtain pre w post where ne: "pre \<noteq> []" and s: "c # cs = pre @ w @ post"
    and p: "IN_at pw pre w post" by blast
  from ne obtain a ps where pre: "pre = a # ps" by (cases pre) simp_all
  from s have a: "a = c" and cs: "cs = ps @ w @ post" by (simp_all add: pre)
  have "IN_at (is_word_char c) ps w post"
    using p by (cases "ps = []") (simp_all add: IN_at_def pre a)
  with cs show "\<exists>pre w post. cs = pre @ w @ post \<and> IN_at (is_word_char c) pre w post"
    by blast
qed

lemma IN_split:
  "(\<exists>pre w post. s = pre @ w @ post \<and> IN_at pw pre w post)
   = ((\<exists>w post. s = w @ post \<and> IN_at pw [] w post)
      \<or> (\<exists>pre w post. pre \<noteq> [] \<and> s = pre @ w @ post \<and> IN_at pw pre w post))"
proof
  assume "\<exists>pre w post. s = pre @ w @ post \<and> IN_at pw pre w post"
  then obtain pre w post where s: "s = pre @ w @ post" and p: "IN_at pw pre w post" by blast
  show "(\<exists>w post. s = w @ post \<and> IN_at pw [] w post)
      \<or> (\<exists>pre w post. pre \<noteq> [] \<and> s = pre @ w @ post \<and> IN_at pw pre w post)"
  proof (cases "pre = []")
    case True
    with s p have "s = w @ post \<and> IN_at pw [] w post" by simp
    then show ?thesis by blast
  next
    case False
    with s p show ?thesis by blast
  qed
next
  assume "(\<exists>w post. s = w @ post \<and> IN_at pw [] w post)
      \<or> (\<exists>pre w post. pre \<noteq> [] \<and> s = pre @ w @ post \<and> IN_at pw pre w post)"
  then show "\<exists>pre w post. s = pre @ w @ post \<and> IN_at pw pre w post"
  proof
    assume "\<exists>w post. s = w @ post \<and> IN_at pw [] w post"
    then obtain w post where "s = [] @ w @ post" and "IN_at pw [] w post" by auto
    then show ?thesis by blast
  next
    assume "\<exists>pre w post. pre \<noteq> [] \<and> s = pre @ w @ post \<and> IN_at pw pre w post"
    then show ?thesis by blast
  qed
qed

lemma word_IN_from_spec:
  "word_IN_from pw s = (\<exists>pre w post. s = pre @ w @ post \<and> IN_at pw pre w post)"
proof (induction s arbitrary: pw)
  case Nil
  show ?case by (simp add: IN_at_def py_lower_def)
next
  case (Cons c cs)
  have "word_IN_from pw (c # cs)
      = ((\<not> pw \<and> py_lower (take 2 (c # cs)) = ''in''
           \<and> (drop 2 (c # cs) = [] \<or> \<not> is_word_char (hd (drop 2 (c # cs)))))
         \<or> word_IN_from (is_word_char c) cs)"
    by (simp only: word_IN_from.simps after_word_conv)
  also have "\<dots> = ((\<exists>w post. c # cs = w @ post \<and> IN_at pw [] w post)
         \<or> (\<exists>pre w post. pre \<noteq> [] \<and> c # cs = pre @ w @ post \<and> IN_at pw pre w post))"
    by (simp only: IN_here Cons.IH IN_later [of cs c pw])
  also have "\<dots> = (\<exists>pre w post. c # cs = pre @ w @ post \<and> IN_at pw pre w post)"
    by (simp only: IN_split [symmetric])
  finally show ?case .
qed

lemma IN_at_start:
  "IN_at False pre w post = (py_lower w = ''in''
       \<and> (pre = [] \<or> \<not> is_word_char (last pre)) \<and> (post = [] \<or> \<not> is_word_char (hd post)))"
  by (cases "pre = []") (simp_all add: IN_at_def)

lemma word_IN_standalone: "word_IN_from False s = standalone_IN s"
  by (simp only: word_IN_from_spec standalone_IN_def IN_at_start)


lemma industry_bullets_insights: "industry_bullets (py_lower s) = industry_insights s"
  by (simp add: industry_bullets_def industry_insights_def re_search_icase_def contains_ci_def
      py_in_sublist py_lower_idem)

lemma re_search_india_text:
  "re_search_india (PStr s) = Inr (standalone_IN s \<or> contains_ci s ''India'')"
  by (simp add: re_search_india_def word_IN_standalone re_search_icase_def contains_ci_def py_in_sublist)

lemma insight_text_read:
  assumes "text_or_missing j k"
  shows "py_or (py_get j k) (PStr []) = PStr (text_of j k)"
proof (cases "j k")
  case None
  then show ?thesis by (simp add: py_or_def py_get_def truthy_def text_of_def)
next
  case (Some v)
  with assms show ?thesis
    by (cases v) (simp_all add: text_or_missing_def py_or_def py_get_def truthy_def text_of_def)
qed

lemma add_insights_shaped:
  assumes "company_shaped u j" and "employeeCount_of u j = Some n"
  shows "add_insights u j =
     Inr (take 3 (industry_insights (text_of j ''industry'') @ size_bullets n
                  @ location_bullets (text_of j ''location'')))"
proof -
  from assms(1) have i: "py_or (py_get j ''industry'') (PStr []) = PStr (text_of j ''industry'')"
    and l: "py_or (py_get j ''location'') (PStr []) = PStr (text_of j ''location'')"
    by (simp_all add: company_shaped_def insight_text_read)
  from assms(2) have n: "py_int u (py_get_default j ''employeeCount'' (PInt 0)) = Inr n"
    by (simp add: employeeCount_of_py_int split: sum.splits)
  have lo: "lower_method (PStr (text_of j ''industry'')) = Inr (py_lower (text_of j ''industry''))"
    by (simp add: lower_method_def)
  show ?thesis
    unfolding add_insights_def i l n lo sum.case Let_def re_search_india_text
      industry_bullets_insights
    by (simp add: size_bullets_def location_bullets_def)
qed

lemma industry_insights_length:
  "1 \<le> length (industry_insights s) \<and> length (industry_insights s) \<le> 2"
  by (simp add: industry_insights_def)


lemma industry_bullets_length:
  "1 \<le> length (industry_bullets s) \<and> length (industry_bullets s) \<le> 2"
  by (simp add: industry_bullets_def)

lemma add_insights_form:
  assumes "add_insights u j = Inr bs"
  shows "\<exists>s mid india. bs = take 3 ((industry_bullets s @ mid) @ india) \<and> length mid \<le> 1"
proof (cases "lower_method (py_or (py_get j ''industry'') (PStr []))")
  case (Inl e)
  with assms show ?thesis by (simp add: add_insights_def)
next
  case s: (Inr s)
  show ?thesis
  proof (cases "py_int u (py_get_default j ''employeeCount'' (PInt 0))")
    case (Inl e)
    with assms s show ?thesis by (simp add: add_insights_def)
  next
    case n: (Inr n)
    show ?thesis
    proof (cases "re_search_india (py_or (py_get j ''location'') (PStr []))")
      case (Inl e)
      with assms s n show ?thesis by (simp add: add_insights_def Let_def)
    next
      case (Inr india)
      let ?mid = "if n > 150 then [''Mid-market team with scaling pains''] else []"
      let ?ind = "if india then [''Operating in India with regional growth''] else []"
      from assms s n Inr have "bs = take 3 ((industry_bullets s @ ?mid) @ ?ind)"
        by (auto simp del: take_append simp add: add_insights_def Let_def)
      moreover have "length ?mid \<le> 1" by simp
      ultimately show ?thesis by blast
    qed
  qed
qed

lemma add_insights_bounds:
  assumes "add_insights u j = Inr bs"
  shows "1 \<le> length bs \<and> length bs \<le> 3"
proof -
  from add_insights_form [OF assms] obtain s mid india
    where bs: "bs = take 3 ((industry_bullets s @ mid) @ india)" by blast
  have "1 \<le> length (industry_bullets s)" using industry_bullets_length [of s] by simp
  then show ?thesis unfolding bs by (simp del: take_append)
qed

lemmas insight_eval = py_get_def py_or_def truthy_def lower_method_def py_lower_def
  lower_char_def char_eval py_get_default_def py_int_def industry_bullets_def re_search_icase_def
  re_search_india_def is_word_char_def Let_def

section \<open>Claims about the insight generator\<close>

text \<open>
  C2.  \<open>add_insights\<close> applies its rules in a fixed order: the industry rules first, then
  the insight for an employee count above 150, then the India insight, and it keeps
  the first three entries of the list so built.  For industry "Logistics", 210
  employees and location "Hyderabad, IN" the result is the two logistics insights
  followed by the mid-market insight; the India insight is the fourth entry of the
  untruncated list and is dropped.
\<close>

theorem add_insights_order_and_truncation:
  "(company_shaped u j \<and> employeeCount_of u j = Some n \<longrightarrow>
      add_insights u j = Inr (take 3 (industry_insights (text_of j ''industry'') @ size_bullets n
                                    @ location_bullets (text_of j ''location''))))
   \<and> add_insights u AEROLOGIX
       = Inr [''Fleet optimization & real-time tracking'',
              ''Likely evaluating warehouse automation'',
              ''Mid-market team with scaling pains'']
   \<and> industry_insights ''Logistics'' @ size_bullets 210 @ location_bullets ''Hyderabad, IN''
       = [''Fleet optimization & real-time tracking'',
          ''Likely evaluating warehouse automation'',
          ''Mid-market team with scaling pains'',
          ''Operating in India with regional growth'']"
proof (intro conjI impI)
  assume "company_shaped u j \<and> employeeCount_of u j = Some n"
  then show "add_insights u j = Inr (take 3 (industry_insights (text_of j ''industry'') @ size_bullets n
                                    @ location_bullets (text_of j ''location'')))"
    by (simp add: add_insights_shaped)
next
  show "add_insights u AEROLOGIX
       = Inr [''Fleet optimization & real-time tracking'',
              ''Likely evaluating warehouse automation'',
              ''Mid-market team with scaling pains'']"
    by (simp add: add_insights_def AEROLOGIX_def insight_eval)
next
  have i: "industry_insights ''Logistics'' = [''Fleet optimization & real-time tracking'',
          ''Likely evaluating warehouse automation'']"
    by (simp add: industry_insights_def contains_ci_def py_in_sublist [symmetric]
        py_lower_def lower_char_def char_eval)
  have l: "location_bullets ''Hyderabad, IN'' = [''Operating in India with regional growth'']"
    by (simp add: location_bullets_def word_IN_standalone [symmetric] py_lower_def lower_char_def
        char_eval is_word_char_def)
  show "industry_insights ''Logistics'' @ size_bullets 210 @ location_bullets ''Hyderabad, IN''
       = [''Fleet optimization & real-time tracking'',
          ''Likely evaluating warehouse automation'',
          ''Mid-market team with scaling pains'',
          ''Operating in India with regional growth'']"
    by (simp add: i l size_bullets_def)
qed

theorem add_insights_order_and_truncation_witness:
  "company_shaped SAMPLE_UNICODE TECHNOVA \<and> employeeCount_of SAMPLE_UNICODE TECHNOVA = Some 120
   \<and> add_insights SAMPLE_UNICODE TECHNOVA
       = Inr (take 3 (industry_insights ''Software'' @ size_bullets 120
                      @ location_bullets ''Bengaluru, IN''))
   \<and> add_insights SAMPLE_UNICODE TECHNOVA
       = Inr [''SaaS roadmap includes AI/ML modules'',
              ''Active in developer ecosystem; likely uses CI/CD'',
              ''Operating in India with regional growth'']"
proof -
  have s: "company_shaped SAMPLE_UNICODE TECHNOVA"
    by (simp add: company_shaped_def text_or_missing_def count_coercible_def int_coercible_def
        TECHNOVA_def)
  have n: "employeeCount_of SAMPLE_UNICODE TECHNOVA = Some 120"
    by (simp add: employeeCount_of_def TECHNOVA_def py_int_def)
  have t: "text_of TECHNOVA ''industry'' = ''Software''"
    "text_of TECHNOVA ''location'' = ''Bengaluru, IN''"
    by (simp_all add: text_of_def TECHNOVA_def)
  have e: "add_insights SAMPLE_UNICODE TECHNOVA
       = Inr [''SaaS roadmap includes AI/ML modules'',
              ''Active in developer ecosystem; likely uses CI/CD'',
              ''Operating in India with regional growth'']"
    by (simp add: add_insights_def TECHNOVA_def insight_eval)
  from add_insights_order_and_truncation [of SAMPLE_UNICODE TECHNOVA 120] s n t e
  show ?thesis by simp
qed

text \<open>
  C9, as stated, fails: it promises a list for every record, whatever its
  \<open>employeeCount\<close>, but \<open>add_insights\<close> starts by converting the count with \<open>int()\<close> and
  handles no exception.  On a record whose \<open>employeeCount\<close> is the string \<open>abc\<close> the call
  raises \<open>ValueError\<close> and returns no list.
\<close>

theorem add_insights_bad_count:
  "add_insights SAMPLE_UNICODE BAD_COUNT
   = Inl (ValueError (''invalid literal for int() with base 10: '' @ quoted ''abc''))"
  by (simp add: add_insights_def BAD_COUNT_def py_get_def py_or_def truthy_def lower_method_def
      py_get_default_def abc_count_int)

text \<open>
  C9, amended.  For every company record whose industry and location are absent, null
  or strings and whose employee count is absent or converts to an integer,
  \<open>add_insights\<close> returns a list of at least one and at most three insights; and
  whatever the record, a list it returns has between one and three entries, since the
  industry rules always add one.
\<close>

theorem add_insights_length:
  "(company_shaped u j \<longrightarrow> (\<exists>bs. add_insights u j = Inr bs \<and> 1 \<le> length bs \<and> length bs \<le> 3))
   \<and> (add_insights u j = Inr bs' \<longrightarrow> 1 \<le> length bs' \<and> length bs' \<le> 3)"
proof (intro conjI impI)
  assume s: "company_shaped u j"
  then have "count_coercible u j" by (simp add: company_shaped_def)
  then have "employeeCount_of u j \<noteq> None" by (simp only: employeeCount_of_coercible)
  then obtain n where "employeeCount_of u j = Some n" by auto
  from add_insights_shaped [OF s this] obtain bs where bs: "add_insights u j = Inr bs" by blast
  from add_insights_bounds [OF bs] bs
  show "\<exists>bs. add_insights u j = Inr bs \<and> 1 \<le> length bs \<and> length bs \<le> 3" by blast
next
  assume "add_insights u j = Inr bs'"
  then have "1 \<le> length bs' \<and> length bs' \<le> 3" by (rule add_insights_bounds)
  then show "1 \<le> length bs'" and "length bs' \<le> 3" by simp_all
qed

theorem add_insights_length_witness:
  "company_shaped SAMPLE_UNICODE EMPTY_RECORD
   \<and> add_insights SAMPLE_UNICODE EMPTY_RECORD = Inr [''Expanding digital footprint'']
   \<and> (\<exists>bs. add_insights SAMPLE_UNICODE EMPTY_RECORD = Inr bs \<and> 1 \<le> length bs \<and> length bs \<le> 3)"
proof -
  have s: "company_shaped SAMPLE_UNICODE EMPTY_RECORD"
    by (simp add: company_shaped_def text_or_missing_def count_coercible_def EMPTY_RECORD_def)
  have e: "add_insights SAMPLE_UNICODE EMPTY_RECORD = Inr [''Expanding digital footprint'']"
    by (simp add: add_insights_def EMPTY_RECORD_def insight_eval)
  from add_insights_length [of SAMPLE_UNICODE EMPTY_RECORD "[''Expanding digital footprint'']"] s e
  show ?thesis by simp
qed


section \<open>The template\<close>

lemma token_starts_Nil: "token_starts p [] = {}"
  by (simp add: token_starts_def)

lemma token_starts_Cons:
  "token_starts p (c # cs)
   = (if \<not> py_isspace c \<and> p then {0} else {}) \<union> Suc ` token_starts (py_isspace c) cs"
proof (rule set_eqI)
  fix i
  show "(i \<in> token_starts p (c # cs))
      = (i \<in> (if \<not> py_isspace c \<and> p then {0} else {}) \<union> Suc ` token_starts (py_isspace c) cs)"
  proof (cases i)
    case 0
    then show ?thesis by (auto simp: token_starts_def)
  next
    case (Suc k)
    have "(Suc k \<in> Suc ` token_starts (py_isspace c) cs) = (k \<in> token_starts (py_isspace c) cs)"
      by auto
    moreover have "(Suc k \<in> token_starts p (c # cs)) = (k \<in> token_starts (py_isspace c) cs)"
      by (cases k) (simp_all add: token_starts_def)
    ultimately show ?thesis using Suc by (simp split: if_splits)
  qed
qed

lemma finite_token_starts: "finite (token_starts p s)"
  by (simp add: token_starts_def)

lemma card_Suc_token_starts: "card (Suc ` token_starts b cs) = card (token_starts b cs)"
  by (rule card_image) simp

lemma card_insert_token_starts:
  "card (insert 0 (Suc ` token_starts b cs)) = Suc (card (token_starts b cs))"
proof -
  have "finite (Suc ` token_starts b cs)" by (simp add: finite_token_starts)
  moreover have "0 \<notin> Suc ` token_starts b cs" by auto
  ultimately show ?thesis by (simp add: card_Suc_token_starts)
qed

lemma card_token_starts_Cons:
  "card (token_starts p (c # cs))
   = (if \<not> py_isspace c \<and> p then 1 else 0) + card (token_starts (py_isspace c) cs)"
  unfolding token_starts_Cons
  by (simp add: card_Suc_token_starts card_insert_token_starts)

lemma length_split_from:
  "length (split_from cur s) = card (token_starts (cur = []) s) + (if cur = [] then 0 else 1)"
proof (induction s arbitrary: cur)
  case Nil
  show ?case by (simp add: token_starts_Nil)
next
  case (Cons c cs)
  show ?case
  proof (cases "py_isspace c")
    case True
    then show ?thesis by (simp add: card_token_starts_Cons Cons.IH)
  next
    case False
    then show ?thesis by (simp add: card_token_starts_Cons Cons.IH)
  qed
qed

lemma length_py_split: "length (py_split s) = token_count s"
  by (simp add: py_split_def token_count_def length_split_from)

lemma template_defined:
  assumes "company ''industry'' = Some (PStr s)"
  shows "generate_email_template company insights =
     Inr [''company'' \<mapsto> py_get company ''companyName'',
          ''subject'' \<mapsto> PStr (py_str (py_get company ''companyName'')
                          @ '': quick idea to accelerate '' @ py_lower s @ '' goals''),
          ''body'' \<mapsto> PStr (template_body company insights),
          ''tone'' \<mapsto> PStr ''consultative'',
          ''wordCount'' \<mapsto> PInt (int (length (py_split (template_body company insights))))]"
  using assms by (simp add: generate_email_template_def Let_def lower_method_def py_get_def)

lemma template_result_fields:
  assumes "generate_email_template company insights = Inr r"
  shows "r ''body'' = Some (PStr (template_body company insights))"
    and "r ''wordCount'' = Some (PInt (int (length (py_split (template_body company insights)))))"
    and "r ''tone'' = Some (PStr ''consultative'')"
    and "r ''error'' = None"
    and "r ''source'' = None"
    and "r ''company'' = Some (py_get company ''companyName'')"
  using assms
  by (auto simp: generate_email_template_def Let_def split: sum.splits)


lemma template_body_frame:
  assumes "company' ''companyName'' = company ''companyName''"
    and "company' ''industry'' = company ''industry''"
    and "company' ''employeeCount'' = company ''employeeCount''"
  shows "template_body company' insights = template_body company insights"
  using assms by (simp add: template_body_def py_get_def)

lemma template_frame:
  assumes "company' ''companyName'' = company ''companyName''"
    and "company' ''industry'' = company ''industry''"
    and "company' ''employeeCount'' = company ''employeeCount''"
  shows "generate_email_template company' insights = generate_email_template company insights"
proof -
  have n: "py_get company' ''companyName'' = py_get company ''companyName''"
    and i: "py_get company' ''industry'' = py_get company ''industry''"
    using assms by (simp_all add: py_get_def)
  show ?thesis
    unfolding generate_email_template_def template_body_frame [OF assms] n i by (rule refl)
qed

lemma aerologix_template:
  "generate_email_template AEROLOGIX AEROLOGIX_INSIGHTS =
     Inr [''company'' \<mapsto> py_get AEROLOGIX ''companyName'',
          ''subject'' \<mapsto> PStr (py_str (py_get AEROLOGIX ''companyName'')
                          @ '': quick idea to accelerate '' @ py_lower ''Logistics'' @ '' goals''),
          ''body'' \<mapsto> PStr (template_body AEROLOGIX AEROLOGIX_INSIGHTS),
          ''tone'' \<mapsto> PStr ''consultative'',
          ''wordCount'' \<mapsto> PInt (int (length (py_split (template_body AEROLOGIX AEROLOGIX_INSIGHTS))))]"
  by (rule template_defined) (simp add: AEROLOGIX_def)

lemma aerologix_words: "length (py_split (template_body AEROLOGIX AEROLOGIX_INSIGHTS)) = 74"
  by code_simp

section \<open>Claims about the local template\<close>

text \<open>
  C4.  \<open>generate_email_template\<close> is a function of its two arguments alone: it reads no
  clock, random source or global, so two calls with the same company and insights give
  the same subject, body, tone and word count (indeed the result depends on the
  company only through its name, industry and employee count).  Whenever it returns,
  the word count it reports is the number of white-space-delimited tokens of the body
  it returns.
\<close>

theorem template_deterministic_wordcount:
  "(company' = company \<and> insights' = insights \<longrightarrow>
      outcome_field (generate_email_template company' insights') ''subject''
        = outcome_field (generate_email_template company insights) ''subject''
      \<and> outcome_field (generate_email_template company' insights') ''body''
        = outcome_field (generate_email_template company insights) ''body''
      \<and> outcome_field (generate_email_template company' insights') ''tone''
        = outcome_field (generate_email_template company insights) ''tone''
      \<and> outcome_field (generate_email_template company' insights') ''wordCount''
        = outcome_field (generate_email_template company insights) ''wordCount'')
   \<and> (company' ''companyName'' = company ''companyName''
        \<and> company' ''industry'' = company ''industry''
        \<and> company' ''employeeCount'' = company ''employeeCount'' \<longrightarrow>
      generate_email_template company' insights = generate_email_template company insights)
   \<and> (generate_email_template company insights = Inr r \<longrightarrow>
        (\<exists>b. r ''body'' = Some (PStr b) \<and> r ''wordCount'' = Some (PInt (int (token_count b)))))"
proof (intro conjI impI)
  assume h: "generate_email_template company insights = Inr r"
  have "r ''body'' = Some (PStr (template_body company insights))"
    by (rule template_result_fields(1) [OF h])
  moreover have "r ''wordCount'' = Some (PInt (int (token_count (template_body company insights))))"
    unfolding length_py_split [symmetric] by (rule template_result_fields(2) [OF h])
  ultimately show "\<exists>b. r ''body'' = Some (PStr b) \<and> r ''wordCount'' = Some (PInt (int (token_count b)))"
    by blast
next
  assume "company' ''companyName'' = company ''companyName''
        \<and> company' ''industry'' = company ''industry''
        \<and> company' ''employeeCount'' = company ''employeeCount''"
  then show "generate_email_template company' insights = generate_email_template company insights"
    by (intro template_frame) simp_all
qed simp_all

theorem template_deterministic_wordcount_witness:
  "outcome_field (generate_email_template AEROLOGIX AEROLOGIX_INSIGHTS) ''wordCount'' = Some (PInt 74)
   \<and> outcome_field (generate_email_template AEROLOGIX AEROLOGIX_INSIGHTS) ''body''
       = Some (PStr (template_body AEROLOGIX AEROLOGIX_INSIGHTS))
   \<and> token_count (template_body AEROLOGIX AEROLOGIX_INSIGHTS) = 74
   \<and> generate_email_template (AEROLOGIX(''website'' := None)) AEROLOGIX_INSIGHTS
       = generate_email_template AEROLOGIX AEROLOGIX_INSIGHTS"
proof -
  let ?r = "[''company'' \<mapsto> py_get AEROLOGIX ''companyName'',
          ''subject'' \<mapsto> PStr (py_str (py_get AEROLOGIX ''companyName'')
                          @ '': quick idea to accelerate '' @ py_lower ''Logistics'' @ '' goals''),
          ''body'' \<mapsto> PStr (template_body AEROLOGIX AEROLOGIX_INSIGHTS),
          ''tone'' \<mapsto> PStr ''consultative'',
          ''wordCount'' \<mapsto> PInt (int (length (py_split (template_body AEROLOGIX AEROLOGIX_INSIGHTS))))]"
  have f: "outcome_field (generate_email_template AEROLOGIX AEROLOGIX_INSIGHTS) ''wordCount''
            = Some (PInt 74)"
    "outcome_field (generate_email_template AEROLOGIX AEROLOGIX_INSIGHTS) ''body''
       = Some (PStr (template_body AEROLOGIX AEROLOGIX_INSIGHTS))"
    by (simp_all add: aerologix_template outcome_field_def aerologix_words)
  from template_deterministic_wordcount
         [of "AEROLOGIX(''website'' := None)" AEROLOGIX AEROLOGIX_INSIGHTS AEROLOGIX_INSIGHTS ?r]
       aerologix_template
  have t: "token_count (template_body AEROLOGIX AEROLOGIX_INSIGHTS) = 74"
    and g: "generate_email_template (AEROLOGIX(''website'' := None)) AEROLOGIX_INSIGHTS
       = generate_email_template AEROLOGIX AEROLOGIX_INSIGHTS"
    by (simp_all add: aerologix_words)
  from f t g show ?thesis by simp
qed

text \<open>
  C8.  When the company's industry is present as a string, \<open>generate_email_template\<close>
  returns a result, and the result has no \<open>error\<close> field.  When the industry is absent,
  the call raises \<open>AttributeError\<close> (from \<open>.lower()\<close> on \<open>None\<close> in the subject line), so
  the operation is not total.
\<close>

theorem template_needs_industry:
  "(company ''industry'' = Some (PStr s) \<longrightarrow>
      (\<exists>r. generate_email_template company insights = Inr r \<and> r ''error'' = None))
   \<and> (company ''industry'' = None \<longrightarrow>
      generate_email_template company insights
        = Inl (AttributeError (quoted ''NoneType'' @ '' object has no attribute '' @ quoted ''lower'')))"
proof (intro conjI impI)
  assume "company ''industry'' = Some (PStr s)"
  then have "generate_email_template company insights =
     Inr [''company'' \<mapsto> py_get company ''companyName'',
          ''subject'' \<mapsto> PStr (py_str (py_get company ''companyName'')
                          @ '': quick idea to accelerate '' @ py_lower s @ '' goals''),
          ''body'' \<mapsto> PStr (template_body company insights),
          ''tone'' \<mapsto> PStr ''consultative'',
          ''wordCount'' \<mapsto> PInt (int (length (py_split (template_body company insights))))]"
    by (rule template_defined)
  then show "\<exists>r. generate_email_template company insights = Inr r \<and> r ''error'' = None"
    by simp
next
  assume "company ''industry'' = None"
  then show "generate_email_template company insights
        = Inl (AttributeError (quoted ''NoneType'' @ '' object has no attribute '' @ quoted ''lower''))"
    by (simp add: generate_email_template_def Let_def lower_method_def py_get_def no_attribute_def
        type_name_def)
qed

theorem template_needs_industry_witness:
  "TECHNOVA ''industry'' = Some (PStr ''Software'')
   \<and> outcome_field (generate_email_template TECHNOVA []) ''subject''
       = Some (PStr ''TechNova Solutions: quick idea to accelerate software goals'')
   \<and> outcome_field (generate_email_template TECHNOVA []) ''error'' = None
   \<and> NO_INDUSTRY ''industry'' = None
   \<and> generate_email_template NO_INDUSTRY []
       = Inl (AttributeError (quoted ''NoneType'' @ '' object has no attribute '' @ quoted ''lower''))"
proof -
  have a: "TECHNOVA ''industry'' = Some (PStr ''Software'')" by (simp add: TECHNOVA_def)
  have b: "NO_INDUSTRY ''industry'' = None" by (simp add: NO_INDUSTRY_def)
  have c: "outcome_field (generate_email_template TECHNOVA []) ''subject''
       = Some (PStr ''TechNova Solutions: quick idea to accelerate software goals'')"
    unfolding template_defined [of TECHNOVA "''Software''" "[]", OF a]
    by (simp add: outcome_field_def py_get_def py_str_def TECHNOVA_def
        py_lower_def lower_char_def char_eval)
  from template_needs_industry [of TECHNOVA "''Software''" "[]"]
       template_needs_industry [of NO_INDUSTRY "''Software''" "[]"] a b c
  show ?thesis by (auto simp: outcome_field_def)
qed


section \<open>Remote generation\<close>

lemma fallback_defined:
  assumes "generate_email_template company insights = Inr t"
  shows "template_fallback company insights err
         = Inr (t(''source'' \<mapsto> PStr ''template'', ''error'' \<mapsto> PStr err))"
  using assms by (simp add: template_fallback_def)

lemma with_key:
  assumes "GROQ_API_KEY env = Some key" and "key \<noteq> []"
  shows "generate_email_with_groq env company insights sent =
     (case try_remote env (build_request key company insights) company insights of
        Inr r \<Rightarrow> (r, sent @ [build_request key company insights])
      | Inl (req_err, resp) \<Rightarrow>
          (template_fallback company insights
             (''RequestError: '' @ req_err @ ''; response=''
              @ (case resp of None \<Rightarrow> [] | Some rsp \<Rightarrow> take 300 (resp_text rsp))),
           sent @ [build_request key company insights]))"
  using assms
  by (simp add: generate_email_with_groq_def key_missing_def Let_def split: sum.splits prod.splits)

lemma sample_content:
  "remote_content (env_replying content) req = Inr (content, sample_response content)"
  by (simp add: remote_content_def env_replying_def sample_response_def raise_for_status_def
      message_content_def get_method_def subscript0_def py_or_def truthy_def Let_def)

lemma technova_template:
  "generate_email_template TECHNOVA [] =
     Inr [''company'' \<mapsto> py_get TECHNOVA ''companyName'',
          ''subject'' \<mapsto> PStr (py_str (py_get TECHNOVA ''companyName'')
                          @ '': quick idea to accelerate '' @ py_lower ''Software'' @ '' goals''),
          ''body'' \<mapsto> PStr (template_body TECHNOVA []),
          ''tone'' \<mapsto> PStr ''consultative'',
          ''wordCount'' \<mapsto> PInt (int (length (py_split (template_body TECHNOVA []))))]"
  by (rule template_defined) (simp add: TECHNOVA_def)

lemma strip_plain:
  "strip_fences ''Hello there'' = ''Hello there''"
  "strip_fences ''[]'' = ''[]''"
  "strip_fences ''{}'' = ''{}''"
  by (simp_all add: strip_fences_def py_strip_def py_isspace_def Let_def)

lemma fallback_raises:
  assumes "generate_email_template company insights = Inl e"
  shows "template_fallback company insights err = Inl e"
  using assms by (simp add: template_fallback_def)

lemma no_industry_template:
  "generate_email_template NO_INDUSTRY []
   = Inl (AttributeError (quoted ''NoneType'' @ '' object has no attribute '' @ quoted ''lower''))"
  by (simp add: generate_email_template_def Let_def lower_method_def py_get_def no_attribute_def
      type_name_def NO_INDUSTRY_def)

subsection \<open>The fallback to the template\<close>

text \<open>
  With no credential configured (the variable unset or empty) no request is sent, and
  the outcome is the template's: where the template returns, its result with \<open>source\<close>
  set to "template" and \<open>error\<close> set to "Missing GROQ_API_KEY"; where the template
  raises, the same exception, which nothing in \<open>generate_email_with_groq\<close> handles.
\<close>

lemma missing_key_fallback:
  assumes "key_missing (GROQ_API_KEY env)"
  shows "snd (generate_email_with_groq env company insights sent) = sent
     \<and> (generate_email_template company insights = Inr t \<longrightarrow>
          (\<exists>r. fst (generate_email_with_groq env company insights sent) = Inr r
             \<and> r ''source'' = Some (PStr ''template'')
             \<and> r ''error'' = Some (PStr ''Missing GROQ_API_KEY'')
             \<and> r ''subject'' = t ''subject'' \<and> r ''body'' = t ''body''
             \<and> r ''tone'' = t ''tone'' \<and> r ''wordCount'' = t ''wordCount''))
     \<and> (generate_email_template company insights = Inl e \<longrightarrow>
          fst (generate_email_with_groq env company insights sent) = Inl e)"
proof (intro conjI impI)
  show "snd (generate_email_with_groq env company insights sent) = sent"
    using assms by (simp add: generate_email_with_groq_def)
next
  assume t: "generate_email_template company insights = Inr t"
  let ?r = "t(''source'' \<mapsto> PStr ''template'', ''error'' \<mapsto> PStr ''Missing GROQ_API_KEY'')"
  have "fst (generate_email_with_groq env company insights sent) = Inr ?r"
    using assms by (simp add: generate_email_with_groq_def fallback_defined [OF t])
  moreover have "?r ''source'' = Some (PStr ''template'')"
    "?r ''error'' = Some (PStr ''Missing GROQ_API_KEY'')"
    "?r ''subject'' = t ''subject''" "?r ''body'' = t ''body''"
    "?r ''tone'' = t ''tone''" "?r ''wordCount'' = t ''wordCount''"
    by simp_all
  ultimately show "\<exists>r. fst (generate_email_with_groq env company insights sent) = Inr r
             \<and> r ''source'' = Some (PStr ''template'')
             \<and> r ''error'' = Some (PStr ''Missing GROQ_API_KEY'')
             \<and> r ''subject'' = t ''subject'' \<and> r ''body'' = t ''body''
             \<and> r ''tone'' = t ''tone'' \<and> r ''wordCount'' = t ''wordCount''"
    by blast
next
  assume e: "generate_email_template company insights = Inl e"
  show "fst (generate_email_with_groq env company insights sent) = Inl e"
    using assms by (simp add: generate_email_with_groq_def fallback_raises [OF e])
qed

lemma missing_key_fallback_sample:
  "key_missing (GROQ_API_KEY env_no_key)
   \<and> snd (generate_email_with_groq env_no_key TECHNOVA [] []) = []
   \<and> result_field (generate_email_with_groq env_no_key TECHNOVA [] []) ''source''
       = Some (PStr ''template'')
   \<and> result_field (generate_email_with_groq env_no_key TECHNOVA [] []) ''error''
       = Some (PStr ''Missing GROQ_API_KEY'')
   \<and> result_field (generate_email_with_groq env_no_key TECHNOVA [] []) ''body''
       = outcome_field (generate_email_template TECHNOVA []) ''body''
   \<and> fst (generate_email_with_groq env_no_key NO_INDUSTRY [] [])
       = generate_email_template NO_INDUSTRY []"
proof -
  have k: "key_missing (GROQ_API_KEY env_no_key)"
    by (simp add: key_missing_def env_no_key_def)
  from missing_key_fallback [OF k, of TECHNOVA "[]" "[]"
         "[''company'' \<mapsto> py_get TECHNOVA ''companyName'',
          ''subject'' \<mapsto> PStr (py_str (py_get TECHNOVA ''companyName'')
                          @ '': quick idea to accelerate '' @ py_lower ''Software'' @ '' goals''),
          ''body'' \<mapsto> PStr (template_body TECHNOVA []),
          ''tone'' \<mapsto> PStr ''consultative'',
          ''wordCount'' \<mapsto> PInt (int (length (py_split (template_body TECHNOVA []))))]"]
       missing_key_fallback [OF k, of NO_INDUSTRY "[]" "[]" _
         "AttributeError (quoted ''NoneType'' @ '' object has no attribute '' @ quoted ''lower'')"]
       k
  show ?thesis
    by (auto simp: result_field_def outcome_field_def technova_template no_industry_template)
qed

text \<open>
  When the remote call delivers a message content and \<open>json.loads\<close> rejects the
  fence-stripped content, one request has been sent, and the outcome is again the
  template's: where the template returns, its result with \<open>source\<close> "template" and an
  \<open>error\<close> that reads "ParseError: ", the decoder's message, "; content=", the first 300
  characters of the raw content at most, and "...".  Where the template raises, the
  exception leaves the inner handler, is caught by the outer one, which calls the
  template a second time, and the second exception leaves the function.
\<close>

lemma parse_failure_fallback:
  assumes "GROQ_API_KEY env = Some key" and "key \<noteq> []"
    and "remote_content env (build_request key company insights) = Inr (content, resp)"
    and "json_loads env (strip_fences content) = Inl msg"
  shows "snd (generate_email_with_groq env company insights sent)
           = sent @ [build_request key company insights]
     \<and> (generate_email_template company insights = Inr t \<longrightarrow>
          (\<exists>r err. fst (generate_email_with_groq env company insights sent) = Inr r
             \<and> r ''source'' = Some (PStr ''template'')
             \<and> r ''error'' = Some (PStr err)
             \<and> err = ''ParseError: '' @ msg @ ''; content='' @ take 300 content @ ''...''
             \<and> err \<noteq> [] \<and> startswith err ''ParseError: ''
             \<and> r ''company'' = t ''company''
             \<and> r ''subject'' = t ''subject'' \<and> r ''body'' = t ''body''
             \<and> r ''tone'' = t ''tone'' \<and> r ''wordCount'' = t ''wordCount''))
     \<and> (generate_email_template company insights = Inl e \<longrightarrow>
          fst (generate_email_with_groq env company insights sent) = Inl e)"
proof (intro conjI impI)
  have p: "parse_content env company content = Inl msg"
    using assms(4) by (simp add: parse_content_def)
  show "snd (generate_email_with_groq env company insights sent)
           = sent @ [build_request key company insights]"
    by (simp add: with_key [OF assms(1,2)] split: sum.splits prod.splits)
  {
    assume t: "generate_email_template company insights = Inr t"
    let ?err = "''ParseError: '' @ msg @ ''; content='' @ take 300 content @ ''...''"
    let ?r = "t(''source'' \<mapsto> PStr ''template'', ''error'' \<mapsto> PStr ?err)"
    have "try_remote env (build_request key company insights) company insights = Inr (Inr ?r)"
      by (simp add: try_remote_def assms(3) p fallback_defined [OF t])
    then have "fst (generate_email_with_groq env company insights sent) = Inr ?r"
      by (simp add: with_key [OF assms(1,2)])
    moreover have "?r ''source'' = Some (PStr ''template'')" "?r ''error'' = Some (PStr ?err)"
      "?r ''company'' = t ''company''"
      "?r ''subject'' = t ''subject''" "?r ''body'' = t ''body''"
      "?r ''tone'' = t ''tone''" "?r ''wordCount'' = t ''wordCount''"
      by simp_all
    moreover have "?err \<noteq> []" "startswith ?err ''ParseError: ''"
      by simp_all
    ultimately show "\<exists>r err. fst (generate_email_with_groq env company insights sent) = Inr r
             \<and> r ''source'' = Some (PStr ''template'')
             \<and> r ''error'' = Some (PStr err)
             \<and> err = ''ParseError: '' @ msg @ ''; content='' @ take 300 content @ ''...''
             \<and> err \<noteq> [] \<and> startswith err ''ParseError: ''
             \<and> r ''company'' = t ''company''
             \<and> r ''subject'' = t ''subject'' \<and> r ''body'' = t ''body''
             \<and> r ''tone'' = t ''tone'' \<and> r ''wordCount'' = t ''wordCount''"
      by blast
  }
  {
    assume e: "generate_email_template company insights = Inl e"
    have "try_remote env (build_request key company insights) company insights
          = Inl (exception_text e, Some resp)"
      by (simp add: try_remote_def assms(3) p fallback_raises [OF e])
    then show "fst (generate_email_with_groq env company insights sent) = Inl e"
      by (simp add: with_key [OF assms(1,2)] fallback_raises [OF e])
  }
qed

lemma parse_failure_fallback_sample:
  "snd (generate_email_with_groq (env_replying ''Hello there'') TECHNOVA [] [])
       = [build_request ''gsk_test'' TECHNOVA []]
   \<and> result_field (generate_email_with_groq (env_replying ''Hello there'') TECHNOVA [] []) ''source''
       = Some (PStr ''template'')
   \<and> result_field (generate_email_with_groq (env_replying ''Hello there'') TECHNOVA [] []) ''error''
       = Some (PStr ''ParseError: Expecting value: line 1 column 1 (char 0); content=Hello there...'')
   \<and> result_field (generate_email_with_groq (env_replying ''Hello there'') TECHNOVA [] []) ''body''
       = outcome_field (generate_email_template TECHNOVA []) ''body''
   \<and> fst (generate_email_with_groq (env_replying ''Hello there'') NO_INDUSTRY [] [])
       = generate_email_template NO_INDUSTRY []"
proof -
  have k: "GROQ_API_KEY (env_replying ''Hello there'') = Some ''gsk_test''" "''gsk_test'' \<noteq> []"
    by (simp_all add: env_replying_def)
  have l: "json_loads (env_replying ''Hello there'') (strip_fences ''Hello there'')
           = Inl ''Expecting value: line 1 column 1 (char 0)''"
    by (simp add: strip_plain env_replying_def sample_loads_def)
  from parse_failure_fallback [OF k sample_content l, of TECHNOVA "[]" "[]"
         "[''company'' \<mapsto> py_get TECHNOVA ''companyName'',
          ''subject'' \<mapsto> PStr (py_str (py_get TECHNOVA ''companyName'')
                          @ '': quick idea to accelerate '' @ py_lower ''Software'' @ '' goals''),
          ''body'' \<mapsto> PStr (template_body TECHNOVA []),
          ''tone'' \<mapsto> PStr ''consultative'',
          ''wordCount'' \<mapsto> PInt (int (length (py_split (template_body TECHNOVA []))))]"]
       parse_failure_fallback [OF k sample_content l, of NO_INDUSTRY "[]" "[]" _
         "AttributeError (quoted ''NoneType'' @ '' object has no attribute '' @ quoted ''lower'')"]
  show ?thesis
    by (auto simp: result_field_def outcome_field_def technova_template no_industry_template)
qed

section \<open>Claims about remote generation\<close>

text \<open>
  C3 does not hold of the code for every company.  The function documents that it
  returns a dictionary with \<open>source\<close> "groq" or "template", and the claim says so for
  the case of a missing credential; but the fallback calls \<open>generate_email_template\<close>,
  whose subject line calls \<open>.lower()\<close> on \<open>company.get('industry')\<close> without the guard
  that \<open>add_insights\<close> and \<open>filter_companies\<close> have for a missing industry.  With no
  credential configured, on the company \<open>{"companyName": "Acme", "employeeCount": 12}\<close>
  and no insights, no request is sent and the call raises \<open>AttributeError\<close> instead of
  returning the template result.
\<close>

theorem missing_key_no_industry_raises:
  "GROQ_API_KEY env_no_key = None
   \<and> NO_INDUSTRY ''industry'' = None
   \<and> generate_email_with_groq env_no_key NO_INDUSTRY [] []
       = (Inl (AttributeError (quoted ''NoneType'' @ '' object has no attribute '' @ quoted ''lower'')),
          [])"
proof -
  have k: "key_missing (GROQ_API_KEY env_no_key)"
    by (simp add: key_missing_def env_no_key_def)
  have "fst (generate_email_with_groq env_no_key NO_INDUSTRY [] [])
        = Inl (AttributeError (quoted ''NoneType'' @ '' object has no attribute '' @ quoted ''lower''))"
    and "snd (generate_email_with_groq env_no_key NO_INDUSTRY [] []) = []"
    using missing_key_fallback [OF k, of NO_INDUSTRY "[]" "[]" _
         "AttributeError (quoted ''NoneType'' @ '' object has no attribute '' @ quoted ''lower'')"]
    by (simp_all add: no_industry_template)
  then have "generate_email_with_groq env_no_key NO_INDUSTRY [] []
       = (Inl (AttributeError (quoted ''NoneType'' @ '' object has no attribute '' @ quoted ''lower'')),
          [])"
    by (simp add: prod_eq_iff)
  then show ?thesis by (simp add: env_no_key_def NO_INDUSTRY_def)
qed

text \<open>
  C6 does not hold of the code for every company, through the same defect as C3: the
  handler of a parse failure calls \<open>generate_email_template\<close>, which raises on a company
  without industry; the outer handler catches that exception and calls the template
  again, and the second \<open>AttributeError\<close> leaves the function, which documents that it
  returns a dictionary.  With a credential configured and a reply whose content is
  the text \<open>Hello there\<close>, which is not JSON, the call on the company
  \<open>{"companyName": "Acme", "employeeCount": 12}\<close> sends one request and raises instead
  of returning the template result with a ParseError.
\<close>

theorem parse_failure_no_industry_raises:
  "json_loads (env_replying ''Hello there'') (strip_fences ''Hello there'')
       = Inl ''Expecting value: line 1 column 1 (char 0)''
   \<and> NO_INDUSTRY ''industry'' = None
   \<and> generate_email_with_groq (env_replying ''Hello there'') NO_INDUSTRY [] []
       = (Inl (AttributeError (quoted ''NoneType'' @ '' object has no attribute '' @ quoted ''lower'')),
          [build_request ''gsk_test'' NO_INDUSTRY []])"
proof -
  have k: "GROQ_API_KEY (env_replying ''Hello there'') = Some ''gsk_test''" "''gsk_test'' \<noteq> []"
    by (simp_all add: env_replying_def)
  have l: "json_loads (env_replying ''Hello there'') (strip_fences ''Hello there'')
           = Inl ''Expecting value: line 1 column 1 (char 0)''"
    by (simp add: strip_plain env_replying_def sample_loads_def)
  have "fst (generate_email_with_groq (env_replying ''Hello there'') NO_INDUSTRY [] [])
        = Inl (AttributeError (quoted ''NoneType'' @ '' object has no attribute '' @ quoted ''lower''))"
    and "snd (generate_email_with_groq (env_replying ''Hello there'') NO_INDUSTRY [] [])
        = [build_request ''gsk_test'' NO_INDUSTRY []]"
    using parse_failure_fallback [OF k sample_content l, of NO_INDUSTRY "[]" "[]" _
         "AttributeError (quoted ''NoneType'' @ '' object has no attribute '' @ quoted ''lower'')"]
    by (simp_all add: no_industry_template)
  then have "generate_email_with_groq (env_replying ''Hello there'') NO_INDUSTRY [] []
       = (Inl (AttributeError (quoted ''NoneType'' @ '' object has no attribute '' @ quoted ''lower'')),
          [build_request ''gsk_test'' NO_INDUSTRY []])"
    by (simp add: prod_eq_iff)
  with l show ?thesis by (simp add: NO_INDUSTRY_def)
qed





end
